theory Spec2Isabelle
  imports Main "HOL-Library.Sublist" "HOL-Library.List_Lexorder" "HOL-Library.Multiset"
begin

section \<open>Text and library functions\<close>

text \<open>
  A Python \<open>str\<close> is a sequence of Unicode code points, so text is a list of code points.
  The labels of the source are Korean; a record field or constant that the source names in
  Korean carries the romanised name here:
  pummyeong (item name), gyugyeok (spec code), danwi (unit), suryang (quantity),
  danga (unit price), geumaek (amount), jejosa (manufacturer), gumaeryang (purchase quantity).
\<close>

type_synonym pystr = "nat list"

text \<open>The code points for which \<open>str.isspace\<close> holds; \<open>str.split()\<close> and \<open>str.strip()\<close>
  without arguments use the same set.\<close>

definition isspace :: "nat \<Rightarrow> bool" where
  "isspace c \<longleftrightarrow> c \<in> set [0x9, 0xA, 0xB, 0xC, 0xD, 0x1C, 0x1D, 0x1E, 0x1F, 0x20, 0x85, 0xA0,
     0x1680, 0x2000, 0x2001, 0x2002, 0x2003, 0x2004, 0x2005, 0x2006, 0x2007, 0x2008, 0x2009,
     0x200A, 0x2028, 0x2029, 0x202F, 0x205F, 0x3000]"

text \<open>\<open>"".join(text.split())\<close>: the text without its whitespace characters.\<close>

definition join_split :: "pystr \<Rightarrow> pystr" where
  "join_split t = filter (\<lambda>c. \<not> isspace c) t"

text \<open>\<open>text.strip()\<close>: leading and trailing whitespace removed.\<close>

definition strip :: "pystr \<Rightarrow> pystr" where
  "strip t = rev (dropWhile isspace (rev (dropWhile isspace t)))"

text \<open>\<open>s.endswith(t)\<close>.\<close>

definition endswith :: "pystr \<Rightarrow> pystr \<Rightarrow> bool" where
  "endswith s t \<longleftrightarrow> length t \<le> length s \<and> drop (length s - length t) s = t"

text \<open>
  The functions of the Python library that the source calls and that are not part of the
  repository are parameters of the model: \<open>unicodedata.normalize("NFC", _)\<close>,
  \<open>str.upper\<close>, \<open>str\<close> of a number and \<open>float\<close> of a text (\<open>None\<close> where
  \<open>float\<close> raises \<open>ValueError\<close>). The type \<open>'f\<close> is Python's \<open>float\<close>; the model
  uses nothing of it but its multiplication.
\<close>

record 'f pylib =
  nfc :: "pystr \<Rightarrow> pystr"
  str_upper :: "pystr \<Rightarrow> pystr"
  str_num :: "'f \<Rightarrow> pystr"
  float_of_text :: "pystr \<Rightarrow> 'f option"

section \<open>Records of \<open>excel_utils.py\<close> and \<open>level3_match_prices.py\<close>\<close>

text \<open>\<open>EstimateRow\<close>, which is also a row of the table \<open>estimate_items\<close>: \<open>insert_rows\<close>
  stores the fields as they are, \<open>file_datetime\<close> as its \<open>isoformat()\<close> text, which is how
  the field is kept here.\<close>

record 'f EstimateRow =
  source_file :: pystr
  source_sheet :: pystr
  file_datetime :: pystr
  a7_text :: pystr
  pummyeong :: pystr
  gyugyeok :: pystr
  danwi :: pystr
  suryang :: "'f option"
  danga :: "'f option"
  geumaek :: "'f option"

record 'f RequestRow =
  req_source_file :: pystr
  req_source_sheet :: pystr
  req_pummyeong :: pystr
  req_gyugyeok :: pystr
  req_jejosa :: pystr
  req_danwi :: pystr
  req_gumaeryang :: "'f option"

text \<open>One entry of \<open>MatchedRow.candidates\<close>: the dict with the keys
  \<open>danga\<close>, \<open>gyeonjeokseo-pail\<close> (file), \<open>siteu\<close> (sheet), \<open>gyeonjeok-naljja\<close> (date)
  and \<open>A7\<close>.\<close>

record 'f candidate =
  cand_danga :: "'f option"
  cand_file :: pystr
  cand_sheet :: pystr
  cand_date :: pystr
  cand_A7 :: pystr

record 'f MatchedRow =
  request :: "'f RequestRow"
  matched :: bool
  match_method :: "pystr option"
  matched_source_file :: "pystr option"
  matched_source_sheet :: "pystr option"
  matched_file_datetime :: "pystr option"
  matched_a7_text :: "pystr option"
  m_danga :: "'f option"
  m_geumaek :: "'f option"
  status :: pystr
  candidates :: "'f candidate list"

text \<open>The string constants of \<open>match_prices\<close>.\<close>

definition method_exact :: pystr where
  "method_exact = [0xD488, 0xBA85, 0x2B, 0xADDC, 0xACA9]"

definition method_spec :: pystr where
  "method_spec = [0xADDC, 0xACA9]"

definition method_fuzzy :: pystr where
  "method_fuzzy = [0xADDC, 0xACA9, 0x2D, 0xC720, 0xC0AC]"

definition method_name :: pystr where
  "method_name = [0xD488, 0xBA85]"

definition status_matched :: pystr where
  "status_matched = [0xB9E4, 0xCE6D]"

definition status_no_price :: pystr where
  "status_no_price = [0xB2E8, 0xAC00, 0x20, 0xC5C6, 0xC74C]"

section \<open>The queries on \<open>estimate_items\<close>\<close>

text \<open>
  The table is the list of its rows in insertion order. \<open>ORDER BY file_datetime DESC\<close>
  compares the stored texts code point by code point (SQLite's binary collation); SQL leaves
  the order of rows with equal \<open>file_datetime\<close> open, and the model puts the row inserted
  last first among them.
\<close>

definition order_by_file_datetime_desc :: "'f EstimateRow list \<Rightarrow> 'f EstimateRow list" where
  "order_by_file_datetime_desc rows = rev (sort_key file_datetime rows)"

definition fetchone :: "'a list \<Rightarrow> 'a option" where
  "fetchone rows = (case rows of [] \<Rightarrow> None | r # _ \<Rightarrow> Some r)"

definition lookup_latest_price :: "'f EstimateRow list \<Rightarrow> pystr \<Rightarrow> pystr \<Rightarrow> 'f EstimateRow option" where
  "lookup_latest_price conn p g =
     fetchone (order_by_file_datetime_desc
       (filter (\<lambda>m. pummyeong m = p \<and> gyugyeok m = g) conn))"

definition lookup_candidates :: "'f EstimateRow list \<Rightarrow> pystr \<Rightarrow> pystr \<Rightarrow> 'f EstimateRow list" where
  "lookup_candidates conn p g =
     order_by_file_datetime_desc
       (filter (\<lambda>m. pummyeong m = p \<and> gyugyeok m = g \<and> danga m \<noteq> None) conn)"

definition lookup_latest_price_by_spec :: "'f EstimateRow list \<Rightarrow> pystr \<Rightarrow> 'f EstimateRow option" where
  "lookup_latest_price_by_spec conn g =
     fetchone (order_by_file_datetime_desc (filter (\<lambda>m. gyugyeok m = g) conn))"

definition lookup_latest_price_by_name :: "'f EstimateRow list \<Rightarrow> pystr \<Rightarrow> 'f EstimateRow option" where
  "lookup_latest_price_by_name conn p =
     fetchone (order_by_file_datetime_desc (filter (\<lambda>m. pummyeong m = p) conn))"

text \<open>\<open>normalize_code\<close>: \<open>re.sub(r"[^0-9a-zA-Z]", "", value.upper())\<close>.\<close>

definition ascii_alnum :: "nat \<Rightarrow> bool" where
  "ascii_alnum c \<longleftrightarrow> (0x30 \<le> c \<and> c \<le> 0x39) \<or> (0x41 \<le> c \<and> c \<le> 0x5A) \<or> (0x61 \<le> c \<and> c \<le> 0x7A)"

definition normalize_code :: "('f, 'x) pylib_scheme \<Rightarrow> pystr \<Rightarrow> pystr" where
  "normalize_code L v = (if v = [] then [] else filter ascii_alnum (str_upper L v))"

text \<open>The loop of \<open>lookup_latest_price_fuzzy_spec\<close> over the fetched rows.\<close>

fun fuzzy_scan :: "('f, 'x) pylib_scheme \<Rightarrow> pystr \<Rightarrow> 'f EstimateRow list \<Rightarrow> 'f EstimateRow option" where
  "fuzzy_scan L target [] = None"
| "fuzzy_scan L target (row # rows) =
     (let candidate = normalize_code L (gyugyeok row) in
      if candidate = [] then fuzzy_scan L target rows
      else if endswith target candidate \<or> endswith candidate target then Some row
      else fuzzy_scan L target rows)"

definition lookup_latest_price_fuzzy_spec ::
    "('f, 'x) pylib_scheme \<Rightarrow> 'f EstimateRow list \<Rightarrow> pystr \<Rightarrow> 'f EstimateRow option" where
  "lookup_latest_price_fuzzy_spec L conn g =
     (let target = normalize_code L g in
      if target = [] then None
      else fuzzy_scan L target
             (order_by_file_datetime_desc (filter (\<lambda>m. gyugyeok m \<noteq> []) conn)))"

section \<open>\<open>match_prices\<close>\<close>

text \<open>Lines 143 to 153 of \<open>level3_match_prices.py\<close>: the four lookups, each later one run
  only while \<open>matched_row\<close> is still \<open>None\<close>. A \<open>sqlite3.Row\<close> is truthy whenever it is not
  \<open>None\<close>, a \<open>str\<close> whenever it is not empty.\<close>

definition cascade ::
    "('f, 'x) pylib_scheme \<Rightarrow> 'f EstimateRow list \<Rightarrow> 'f RequestRow \<Rightarrow> 'f EstimateRow option \<times> pystr option" where
  "cascade L conn row =
     (let matched_row = lookup_latest_price conn (req_pummyeong row) (req_gyugyeok row);
          match_method = (if matched_row \<noteq> None then Some method_exact else None);
          (matched_row, match_method) =
            (if matched_row = None \<and> req_gyugyeok row \<noteq> [] then
               (let m = lookup_latest_price_by_spec conn (req_gyugyeok row)
                in (m, if m \<noteq> None then Some method_spec else None))
             else (matched_row, match_method));
          (matched_row, match_method) =
            (if matched_row = None \<and> req_gyugyeok row \<noteq> [] then
               (let m = lookup_latest_price_fuzzy_spec L conn (req_gyugyeok row)
                in (m, if m \<noteq> None then Some method_fuzzy else None))
             else (matched_row, match_method));
          (matched_row, match_method) =
            (if matched_row = None \<and> req_pummyeong row \<noteq> [] then
               (let m = lookup_latest_price_by_name conn (req_pummyeong row)
                in (m, if m \<noteq> None then Some method_name else None))
             else (matched_row, match_method))
      in (matched_row, match_method))"

definition candidate_dict :: "'f EstimateRow \<Rightarrow> 'f candidate" where
  "candidate_dict c =
     \<lparr> cand_danga = danga c, cand_file = source_file c, cand_sheet = source_sheet c,
       cand_date = file_datetime c, cand_A7 = a7_text c \<rparr>"

text \<open>The body of the loop of \<open>match_prices\<close> for one request.\<close>

definition match_one ::
    "('f::times, 'x) pylib_scheme \<Rightarrow> 'f EstimateRow list \<Rightarrow> 'f RequestRow \<Rightarrow> 'f MatchedRow" where
  "match_one L conn row =
     (let candidates_rows =
            (if req_pummyeong row \<noteq> [] \<and> req_gyugyeok row \<noteq> []
             then lookup_candidates conn (req_pummyeong row) (req_gyugyeok row) else []);
          cands = map candidate_dict candidates_rows;
          (matched_row, method) = cascade L conn row
      in if matched_row \<noteq> None \<and> (case matched_row of Some m \<Rightarrow> danga m \<noteq> None | None \<Rightarrow> False) then
           (let d = the (danga (the matched_row));
                g = (case req_gumaeryang row of Some q \<Rightarrow> Some (d * q) | None \<Rightarrow> None)
            in \<lparr> request = row, matched = True, match_method = method,
                 matched_source_file = Some (source_file (the matched_row)),
                 matched_source_sheet = Some (source_sheet (the matched_row)),
                 matched_file_datetime = Some (file_datetime (the matched_row)),
                 matched_a7_text = Some (a7_text (the matched_row)),
                 m_danga = Some d, m_geumaek = g, status = status_matched,
                 candidates = cands \<rparr>)
         else
           \<lparr> request = row, matched = False, match_method = method,
             matched_source_file = map_option source_file matched_row,
             matched_source_sheet = map_option source_sheet matched_row,
             matched_file_datetime = map_option file_datetime matched_row,
             matched_a7_text = map_option a7_text matched_row,
             m_danga = None, m_geumaek = None, status = status_no_price,
             candidates = cands \<rparr>)"

definition match_prices ::
    "('f::times, 'x) pylib_scheme \<Rightarrow> 'f EstimateRow list \<Rightarrow> 'f RequestRow list \<Rightarrow> 'f MatchedRow list" where
  "match_prices L conn requests = map (match_one L conn) requests"

section \<open>Cells and normalisation (\<open>excel_utils.py\<close>)\<close>

text \<open>
  A cell of the \<open>DataFrame\<close> read with \<open>header=None\<close>: \<open>None\<close>, the float NaN that pandas
  puts in an empty cell, a \<open>str\<close>, or a number (an \<open>int\<close> or a \<open>float\<close> that is not NaN).
  A sheet is the list of its rows, top to bottom.
\<close>

datatype 'f cell = CNone | CNaN | CStr pystr | CNum 'f

datatype py_error = KeyError | IndexError

text \<open>\<open>str(value)\<close>.\<close>

definition str_of :: "('f, 'x) pylib_scheme \<Rightarrow> 'f cell \<Rightarrow> pystr" where
  "str_of L v = (case v of
       CNone \<Rightarrow> [0x4E, 0x6F, 0x6E, 0x65]
     | CNaN \<Rightarrow> [0x6E, 0x61, 0x6E]
     | CStr t \<Rightarrow> t
     | CNum x \<Rightarrow> str_num L x)"

definition normalize_text :: "('f, 'x) pylib_scheme \<Rightarrow> 'f cell \<Rightarrow> pystr" where
  "normalize_text L v = (case v of
       CNone \<Rightarrow> []
     | CNaN \<Rightarrow> []
     | _ \<Rightarrow> join_split (nfc L (str_of L v)))"

text \<open>\<open>to_float\<close>; \<open>text.replace(",", "")\<close> removes every comma.\<close>

definition to_float :: "('f, 'x) pylib_scheme \<Rightarrow> 'f cell \<Rightarrow> 'f option" where
  "to_float L v = (case v of
       CNone \<Rightarrow> None
     | CNaN \<Rightarrow> None
     | CNum x \<Rightarrow> Some x
     | CStr t \<Rightarrow>
         (let txt = filter (\<lambda>c. c \<noteq> 0x2C) (strip t)
          in if txt = [] then None else float_of_text L txt))"

definition h_pummyeong :: pystr where "h_pummyeong = [0xD488, 0xBA85]"
definition h_gyugyeok :: pystr where "h_gyugyeok = [0xADDC, 0xACA9]"
definition h_danwi :: pystr where "h_danwi = [0xB2E8, 0xC704]"
definition h_suryang :: pystr where "h_suryang = [0xC218, 0xB7C9]"
definition h_danga :: pystr where "h_danga = [0xB2E8, 0xAC00]"
definition h_geumaek :: pystr where "h_geumaek = [0xAE08, 0xC561]"
definition h_jejosa :: pystr where "h_jejosa = [0xC81C, 0xC870, 0xC0AC]"
definition h_gumaeryang :: pystr where "h_gumaeryang = [0xAD6C, 0xB9E4, 0xB7C9]"

definition REQUIRED_HEADERS :: "pystr list" where
  "REQUIRED_HEADERS = [h_pummyeong, h_gyugyeok, h_danwi, h_suryang, h_danga, h_geumaek]"

definition REQUEST_HEADERS :: "pystr list" where
  "REQUEST_HEADERS = [h_pummyeong, h_gyugyeok, h_jejosa, h_danwi, h_gumaeryang]"

section \<open>Header location\<close>

text \<open>The loop over the columns of one row in \<open>find_header_row\<close>; \<open>header_map\<close> is the
  dict under construction.\<close>

fun header_scan :: "pystr list \<Rightarrow> nat \<Rightarrow> (pystr \<rightharpoonup> nat) \<Rightarrow> (pystr \<rightharpoonup> nat)" where
  "header_scan [] col_idx header_map = header_map"
| "header_scan (cell # cells) col_idx header_map =
     header_scan cells (Suc col_idx)
       (if cell \<in> set REQUIRED_HEADERS \<and> header_map cell = None
        then header_map(cell \<mapsto> col_idx) else header_map)"

fun find_header_row_from ::
    "('f, 'x) pylib_scheme \<Rightarrow> 'f cell list list \<Rightarrow> nat \<Rightarrow> (nat \<times> (pystr \<rightharpoonup> nat)) option" where
  "find_header_row_from L [] row_idx = None"
| "find_header_row_from L (row # rest) row_idx =
     (let normalized = map (normalize_text L) row;
          header_map = header_scan normalized 0 Map.empty
      in if \<forall>h \<in> set REQUIRED_HEADERS. header_map h \<noteq> None then Some (row_idx, header_map)
         else find_header_row_from L rest (Suc row_idx))"


text \<open>The loop over the columns in \<open>find_request_header_row\<close>, with its two \<open>if\<close>
  statements in the order of the source.\<close>

fun request_header_scan :: "pystr list \<Rightarrow> nat \<Rightarrow> (pystr \<rightharpoonup> nat) \<Rightarrow> (pystr \<rightharpoonup> nat)" where
  "request_header_scan [] col_idx header_map = header_map"
| "request_header_scan (cell # cells) col_idx header_map =
     (let header_map1 =
            (if cell \<in> set REQUEST_HEADERS \<and> header_map cell = None
             then header_map(cell \<mapsto> col_idx) else header_map);
          header_map2 =
            (if cell = h_suryang \<and> header_map1 h_gumaeryang = None
             then header_map1(h_gumaeryang \<mapsto> col_idx) else header_map1)
      in request_header_scan cells (Suc col_idx) header_map2)"

fun find_request_header_row_from ::
    "('f, 'x) pylib_scheme \<Rightarrow> 'f cell list list \<Rightarrow> nat \<Rightarrow> (nat \<times> (pystr \<rightharpoonup> nat)) option" where
  "find_request_header_row_from L [] row_idx = None"
| "find_request_header_row_from L (row # rest) row_idx =
     (let normalized = map (normalize_text L) row;
          header_map = request_header_scan normalized 0 Map.empty
      in if (\<forall>h \<in> set (filter (\<lambda>h. h \<noteq> h_gumaeryang) REQUEST_HEADERS). header_map h \<noteq> None)
            \<and> header_map h_gumaeryang \<noteq> None
         then Some (row_idx, header_map)
         else find_request_header_row_from L rest (Suc row_idx))"

definition find_request_header_row ::
    "('f, 'x) pylib_scheme \<Rightarrow> 'f cell list list \<Rightarrow> (nat \<times> (pystr \<rightharpoonup> nat)) option" where
  "find_request_header_row L df = find_request_header_row_from L df 0"


section \<open>Data region extraction\<close>

text \<open>The \<open>values\<close> dict of one row in \<open>iter_estimate_rows\<close>: \<open>header_map[key]\<close> raises
  \<open>KeyError\<close> for a key that is not in the dict, and a column index beyond the row reads as
  \<open>None\<close>.\<close>

fun estimate_values ::
    "pystr list \<Rightarrow> (pystr \<rightharpoonup> nat) \<Rightarrow> 'f cell list \<Rightarrow> (pystr \<rightharpoonup> 'f cell) \<Rightarrow> py_error + (pystr \<rightharpoonup> 'f cell)" where
  "estimate_values [] header_map row values = Inr values"
| "estimate_values (key # keys) header_map row values =
     (case header_map key of
        None \<Rightarrow> Inl KeyError
      | Some col_idx \<Rightarrow>
          estimate_values keys header_map row
            (values(key \<mapsto> (if col_idx < length row then row ! col_idx else CNone))))"

text \<open>\<open>values[key]\<close> for a key that the loop above has stored.\<close>

definition value_at :: "(pystr \<rightharpoonup> 'f cell) \<Rightarrow> pystr \<Rightarrow> 'f cell" where
  "value_at values key = (case values key of Some v \<Rightarrow> v | None \<Rightarrow> CNone)"

definition has_any :: "('f, 'x) pylib_scheme \<Rightarrow> pystr list \<Rightarrow> (pystr \<rightharpoonup> 'f cell) \<Rightarrow> bool" where
  "has_any L keys values \<longleftrightarrow> (\<exists>key \<in> set keys. normalize_text L (value_at values key) \<noteq> [])"

text \<open>The loop of \<open>iter_estimate_rows\<close> over the rows below the header, with the counters
  \<open>data_rows\<close> and \<open>empty_streak\<close>; the result is the list of the dicts that the generator
  yields when it is run to its end, or the exception that ends it.\<close>

fun iter_rows ::
    "('f, 'x) pylib_scheme \<Rightarrow> (pystr \<rightharpoonup> nat) \<Rightarrow> 'f cell list list \<Rightarrow> nat \<Rightarrow> nat
       \<Rightarrow> py_error + (pystr \<rightharpoonup> 'f cell) list" where
  "iter_rows L header_map [] data_rows empty_streak = Inr []"
| "iter_rows L header_map (row # rows) data_rows empty_streak =
     (case estimate_values REQUIRED_HEADERS header_map row Map.empty of
        Inl err \<Rightarrow> Inl err
      | Inr values \<Rightarrow>
          if has_any L REQUIRED_HEADERS values then
            (case iter_rows L header_map rows (data_rows + 1) 0 of
               Inl err \<Rightarrow> Inl err
             | Inr rest \<Rightarrow> Inr (values # rest))
          else if data_rows > 0 then
            (if empty_streak + 1 \<ge> 2 then Inr []
             else iter_rows L header_map rows data_rows (empty_streak + 1))
          else iter_rows L header_map rows data_rows empty_streak)"

definition iter_estimate_rows ::
    "('f, 'x) pylib_scheme \<Rightarrow> 'f cell list list \<Rightarrow> nat \<Rightarrow> (pystr \<rightharpoonup> nat)
       \<Rightarrow> py_error + (pystr \<rightharpoonup> 'f cell) list" where
  "iter_estimate_rows L df header_row header_map =
     iter_rows L header_map (drop (header_row + 1) df) 0 0"




text \<open>The \<open>values\<close> dict of one row in \<open>parse_request_sheet\<close>: \<open>header_map.get(key)\<close> gives
  \<open>None\<close> for a missing key, and \<open>row.iloc[col_idx]\<close> raises \<open>IndexError\<close> beyond the row.\<close>

fun request_values ::
    "pystr list \<Rightarrow> (pystr \<rightharpoonup> nat) \<Rightarrow> 'f cell list \<Rightarrow> (pystr \<rightharpoonup> 'f cell) \<Rightarrow> py_error + (pystr \<rightharpoonup> 'f cell)" where
  "request_values [] header_map row values = Inr values"
| "request_values (key # keys) header_map row values =
     (case header_map key of
        None \<Rightarrow> request_values keys header_map row (values(key \<mapsto> CNone))
      | Some col_idx \<Rightarrow>
          if col_idx < length row
          then request_values keys header_map row (values(key \<mapsto> row ! col_idx))
          else Inl IndexError)"

definition request_row_of ::
    "('f, 'x) pylib_scheme \<Rightarrow> pystr \<Rightarrow> pystr \<Rightarrow> (pystr \<rightharpoonup> 'f cell) \<Rightarrow> 'f RequestRow option" where
  "request_row_of L path sheet_name values =
     (let p = normalize_text L (value_at values h_pummyeong);
          g = normalize_text L (value_at values h_gyugyeok);
          j = normalize_text L (value_at values h_jejosa);
          u = normalize_text L (value_at values h_danwi)
      in if p = [] then None
         else Some \<lparr> req_source_file = path, req_source_sheet = sheet_name,
                     req_pummyeong = p, req_gyugyeok = g, req_jejosa = j, req_danwi = u,
                     req_gumaeryang = to_float L (value_at values h_gumaeryang) \<rparr>)"

text \<open>The loop of \<open>parse_request_sheet\<close>; \<open>results\<close> is returned in the order of the
  appends. A row with data and an empty item name runs into \<open>continue\<close> after the counters
  have been updated.\<close>

fun request_rows ::
    "('f, 'x) pylib_scheme \<Rightarrow> pystr \<Rightarrow> pystr \<Rightarrow> (pystr \<rightharpoonup> nat) \<Rightarrow> 'f cell list list \<Rightarrow> nat \<Rightarrow> nat
       \<Rightarrow> py_error + 'f RequestRow list" where
  "request_rows L path sheet_name header_map [] data_rows empty_streak = Inr []"
| "request_rows L path sheet_name header_map (row # rows) data_rows empty_streak =
     (case request_values REQUEST_HEADERS header_map row Map.empty of
        Inl err \<Rightarrow> Inl err
      | Inr values \<Rightarrow>
          if has_any L REQUEST_HEADERS values then
            (case request_rows L path sheet_name header_map rows (data_rows + 1) 0 of
               Inl err \<Rightarrow> Inl err
             | Inr rest \<Rightarrow>
                 (case request_row_of L path sheet_name values of
                    None \<Rightarrow> Inr rest
                  | Some r \<Rightarrow> Inr (r # rest)))
          else if data_rows > 0 then
            (if empty_streak + 1 \<ge> 2 then Inr []
             else request_rows L path sheet_name header_map rows data_rows (empty_streak + 1))
          else request_rows L path sheet_name header_map rows data_rows empty_streak)"

definition parse_request_sheet ::
    "('f, 'x) pylib_scheme \<Rightarrow> pystr \<Rightarrow> pystr \<Rightarrow> 'f cell list list \<Rightarrow> py_error + 'f RequestRow list" where
  "parse_request_sheet L path sheet_name df =
     (case find_request_header_row L df of
        None \<Rightarrow> Inr []
      | Some (header_row, header_map) \<Rightarrow>
          request_rows L path sheet_name header_map (drop (header_row + 1) df) 0 0)"

section \<open>A library excerpt and data for concrete runs\<close>

text \<open>
  The concrete runs below use this excerpt of the Python library, with Python's \<open>int\<close> for
  the numbers. It agrees with CPython on the texts that the runs use: printable ASCII, Hangul
  syllables, U+00E9, and U+0301 where it stands first or follows \<open>e\<close>, U+00E9, a space or
  U+0301. On such text NFC composes \<open>e\<close> with a directly following U+0301 to U+00E9 and
  changes nothing else, \<open>str.upper\<close> maps \<open>a\<close> to \<open>z\<close> to \<open>A\<close> to \<open>Z\<close> and U+00E9 to
  U+00C9, \<open>str\<close> of an \<open>int\<close> is its decimal numeral, and \<open>float\<close> of a text of ASCII
  digits is the number they write.
\<close>

definition ascii :: "string \<Rightarrow> pystr" where
  "ascii s = map of_char s"

fun nfc_excerpt :: "pystr \<Rightarrow> pystr" where
  "nfc_excerpt (a # b # cs) =
     (if a = 0x65 \<and> b = 0x301 then 0xE9 # nfc_excerpt cs else a # nfc_excerpt (b # cs))"
| "nfc_excerpt cs = cs"

definition upper_excerpt :: "nat \<Rightarrow> nat" where
  "upper_excerpt c = (if (0x61 \<le> c \<and> c \<le> 0x7A) \<or> c = 0xE9 then c - 0x20 else c)"

function decimal :: "nat \<Rightarrow> pystr" where
  "decimal n = (if n < 10 then [0x30 + n] else decimal (n div 10) @ [0x30 + n mod 10])"
  by pat_completeness auto
termination
  by (relation "measure id") auto

declare decimal.simps [simp del]

definition str_int :: "int \<Rightarrow> pystr" where
  "str_int i = (if i < 0 then 0x2D # decimal (nat (- i)) else decimal (nat i))"

definition float_of_digits :: "pystr \<Rightarrow> int option" where
  "float_of_digits t =
     (if t \<noteq> [] \<and> list_all (\<lambda>c. 0x30 \<le> c \<and> c \<le> 0x39) t
      then Some (foldl (\<lambda>a c. 10 * a + int (c - 0x30)) 0 t) else None)"

definition pylib_excerpt :: "int pylib" where
  "pylib_excerpt = \<lparr> nfc = nfc_excerpt, str_upper = map upper_excerpt,
                      str_num = str_int, float_of_text = float_of_digits \<rparr>"

text \<open>A row of the table and a request, with the fields that no lookup reads fixed.\<close>

definition price_row :: "string \<Rightarrow> string \<Rightarrow> string \<Rightarrow> int option \<Rightarrow> int EstimateRow" where
  "price_row name spec dt price =
     \<lparr> source_file = ascii ''quote.xlsx'', source_sheet = ascii ''Sheet1'',
       file_datetime = ascii dt, a7_text = ascii ''note'', pummyeong = ascii name,
       gyugyeok = ascii spec, danwi = ascii ''EA'', suryang = None, danga = price,
       geumaek = None \<rparr>"

definition request_row :: "string \<Rightarrow> string \<Rightarrow> int option \<Rightarrow> int RequestRow" where
  "request_row name spec qty =
     \<lparr> req_source_file = ascii ''request.xlsx'', req_source_sheet = ascii ''Sheet1'',
       req_pummyeong = ascii name, req_gyugyeok = ascii spec, req_jejosa = [],
       req_danwi = ascii ''EA'', req_gumaeryang = qty \<rparr>"

text \<open>Two quotations of one item, the later one at 120.\<close>

definition bolt_table :: "int EstimateRow list" where
  "bolt_table = [price_row ''BoltM6'' ''SS304-10MM'' ''2024-01-01T09:00:00'' (Some 100),
                 price_row ''BoltM6'' ''SS304-10MM'' ''2024-02-01T09:00:00'' (Some 120)]"

text \<open>A spec code without letters or digits, and one with a prefix in front of the code that
  a request carries.\<close>

definition rev_table :: "int EstimateRow list" where
  "rev_table = [price_row ''Gasket'' ''ABC-0012-REV2'' ''2024-01-01T09:00:00'' (Some 50),
                price_row ''Washer'' ''--'' ''2024-03-01T09:00:00'' (Some 7)]"

text \<open>An exact-key row without a price, older than a priced row of another item with the same
  spec code.\<close>

definition priceless_table :: "int EstimateRow list" where
  "priceless_table = [price_row ''Valve'' ''DN50'' ''2024-01-01T09:00:00'' None,
                      price_row ''Flange'' ''DN50'' ''2024-02-01T09:00:00'' (Some 5)]"

text \<open>A quotation line whose spec cell was empty.\<close>

definition nospec_table :: "int EstimateRow list" where
  "nospec_table = [price_row ''Cable'' [] ''2024-01-01T09:00:00'' (Some 10)]"

section \<open>The data region, apart from the cells\<close>

text \<open>The dict that \<open>iter_estimate_rows\<close> builds for a row when no key is missing from
  \<open>header_map\<close>, and the test of the loop for a row without data.\<close>

definition values_of_row :: "(pystr \<rightharpoonup> nat) \<Rightarrow> 'f cell list \<Rightarrow> (pystr \<rightharpoonup> 'f cell)" where
  "values_of_row header_map row =
     (case estimate_values REQUIRED_HEADERS header_map row Map.empty of
        Inr values \<Rightarrow> values | Inl err \<Rightarrow> Map.empty)"

definition blank_row :: "('f, 'x) pylib_scheme \<Rightarrow> (pystr \<rightharpoonup> nat) \<Rightarrow> 'f cell list \<Rightarrow> bool" where
  "blank_row L header_map row \<longleftrightarrow> \<not> has_any L REQUIRED_HEADERS (values_of_row header_map row)"

text \<open>The same for \<open>parse_request_sheet\<close>, when no column index lies beyond the row.\<close>

definition request_values_of_row :: "(pystr \<rightharpoonup> nat) \<Rightarrow> 'f cell list \<Rightarrow> (pystr \<rightharpoonup> 'f cell)" where
  "request_values_of_row header_map row =
     (case request_values REQUEST_HEADERS header_map row Map.empty of
        Inr values \<Rightarrow> values | Inl err \<Rightarrow> Map.empty)"

definition request_blank_row :: "('f, 'x) pylib_scheme \<Rightarrow> (pystr \<rightharpoonup> nat) \<Rightarrow> 'f cell list \<Rightarrow> bool" where
  "request_blank_row L header_map row \<longleftrightarrow>
     \<not> has_any L REQUEST_HEADERS (request_values_of_row header_map row)"

text \<open>The control flow that the loops of \<open>iter_estimate_rows\<close> and \<open>parse_request_sheet\<close>
  share, over any test for a blank row: the rows with data that the loop reaches, with the
  counters \<open>data_rows\<close> and \<open>empty_streak\<close>.\<close>

fun region_scan :: "('a \<Rightarrow> bool) \<Rightarrow> 'a list \<Rightarrow> nat \<Rightarrow> nat \<Rightarrow> 'a list" where
  "region_scan blank [] data_rows empty_streak = []"
| "region_scan blank (row # rows) data_rows empty_streak =
     (if \<not> blank row then row # region_scan blank rows (data_rows + 1) 0
      else if data_rows > 0 then
        (if empty_streak + 1 \<ge> 2 then [] else region_scan blank rows data_rows (empty_streak + 1))
      else region_scan blank rows data_rows empty_streak)"

text \<open>The data region in the words of the specification: the blank rows under the header are
  skipped, the region ends before the first two consecutive blank rows, and its data rows are
  the rows in it that are not blank.\<close>

fun until_double_blank :: "('a \<Rightarrow> bool) \<Rightarrow> 'a list \<Rightarrow> 'a list" where
  "until_double_blank blank (x # y # zs) =
     (if blank x \<and> blank y then [] else x # until_double_blank blank (y # zs))"
| "until_double_blank blank xs = xs"

definition data_region :: "('a \<Rightarrow> bool) \<Rightarrow> 'a list \<Rightarrow> 'a list" where
  "data_region blank rows =
     filter (\<lambda>r. \<not> blank r) (until_double_blank blank (dropWhile blank rows))"

text \<open>Sheets for concrete runs: a header row, rows of an item, and rows of empty cells, which
  pandas reads as NaN.\<close>

definition estimate_header :: "int cell list" where
  "estimate_header = map CStr REQUIRED_HEADERS"

definition estimate_header_map :: "pystr \<rightharpoonup> nat" where
  "estimate_header_map = [h_pummyeong \<mapsto> 0, h_gyugyeok \<mapsto> 1, h_danwi \<mapsto> 2,
                          h_suryang \<mapsto> 3, h_danga \<mapsto> 4, h_geumaek \<mapsto> 5]"

definition item_cells :: "string \<Rightarrow> string \<Rightarrow> int \<Rightarrow> int cell list" where
  "item_cells name spec price =
     [CStr (ascii name), CStr (ascii spec), CStr (ascii ''EA''), CNum 1, CNum price, CNum price]"

definition request_header :: "int cell list" where
  "request_header = map CStr REQUEST_HEADERS"

definition request_header_map :: "pystr \<rightharpoonup> nat" where
  "request_header_map = [h_pummyeong \<mapsto> 0, h_gyugyeok \<mapsto> 1, h_jejosa \<mapsto> 2,
                         h_danwi \<mapsto> 3, h_gumaeryang \<mapsto> 4]"

definition request_cells :: "string \<Rightarrow> string \<Rightarrow> int \<Rightarrow> int cell list" where
  "request_cells name spec qty =
     [CStr (ascii name), CStr (ascii spec), CNaN, CStr (ascii ''EA''), CNum qty]"

definition blank_cells :: "int cell list" where
  "blank_cells = [CNaN, CNaN, CNaN, CNaN, CNaN, CNaN]"

definition blank_request_cells :: "int cell list" where
  "blank_request_cells = [CNaN, CNaN, CNaN, CNaN, CNaN]"

definition single_gap_sheet :: "int cell list list" where
  "single_gap_sheet = [estimate_header, item_cells ''Bolt'' ''M6'' 100, blank_cells,
                       item_cells ''Nut'' ''M6'' 30]"

definition double_gap_sheet :: "int cell list list" where
  "double_gap_sheet = [estimate_header, item_cells ''Bolt'' ''M6'' 100, blank_cells,
                       blank_cells, item_cells ''Nut'' ''M6'' 30]"

definition leading_gap_sheet :: "int cell list list" where
  "leading_gap_sheet = [estimate_header, blank_cells, blank_cells,
                        item_cells ''Bolt'' ''M6'' 100]"

definition single_gap_request :: "int cell list list" where
  "single_gap_request = [request_header, request_cells ''Bolt'' ''M6'' 3, blank_request_cells,
                         request_cells ''Nut'' ''M6'' 4]"

definition double_gap_request :: "int cell list list" where
  "double_gap_request = [request_header, request_cells ''Bolt'' ''M6'' 3, blank_request_cells,
                         blank_request_cells, request_cells ''Nut'' ''M6'' 4]"

definition leading_gap_request :: "int cell list list" where
  "leading_gap_request = [request_header, blank_request_cells, blank_request_cells,
                          request_cells ''Bolt'' ''M6'' 3]"

text \<open>A request header row that carries both the label \<open>suryang\<close> (quantity) and, to its
  right, the label \<open>gumaeryang\<close> (purchase quantity), and a sheet with one item under it.\<close>

definition both_quantity_header :: "int cell list" where
  "both_quantity_header =
     map CStr [h_pummyeong, h_gyugyeok, h_jejosa, h_danwi, h_suryang, h_gumaeryang]"

definition both_quantity_sheet :: "int cell list list" where
  "both_quantity_sheet =
     [both_quantity_header,
      [CStr (ascii ''Bolt''), CStr (ascii ''M6''), CNaN, CStr (ascii ''EA''), CNum 7, CNum 9]]"




section \<open>Properties of the queries\<close>


lemma set_order_by: "set (order_by_file_datetime_desc rows) = set rows"
  by (simp add: order_by_file_datetime_desc_def)

lemma mset_order_by: "mset (order_by_file_datetime_desc rows) = mset rows"
  by (simp add: order_by_file_datetime_desc_def)

lemma sorted_order_by:
  "sorted_wrt (\<lambda>a b. file_datetime b \<le> file_datetime a) (order_by_file_datetime_desc rows)"
proof -
  have "sorted (map file_datetime (sort_key file_datetime rows))"
    by (rule sorted_sort_key)
  then have "sorted_wrt (\<lambda>a b. file_datetime a \<le> file_datetime b) (sort_key file_datetime rows)"
    by (simp add: sorted_map)
  then show ?thesis
    by (simp add: order_by_file_datetime_desc_def sorted_wrt_rev)
qed

lemma filter_order_by:
  "filter P (order_by_file_datetime_desc rows) = order_by_file_datetime_desc (filter P rows)"
  by (simp add: order_by_file_datetime_desc_def rev_filter [symmetric] filter_sort)


lemma fetchone_None: "fetchone rows = None \<longleftrightarrow> rows = []"
  by (auto simp: fetchone_def split: list.splits)

lemmas run_defs = price_row_def request_row_def ascii_def pylib_excerpt_def
  order_by_file_datetime_desc_def fetchone_def upper_excerpt_def ascii_alnum_def endswith_def
  normalize_code_def lookup_latest_price_def lookup_candidates_def lookup_latest_price_by_spec_def
  lookup_latest_price_by_name_def lookup_latest_price_fuzzy_spec_def cascade_def match_one_def
  match_prices_def candidate_dict_def Let_def

section \<open>The amount of a result\<close>

lemma match_one_amount:
  "(\<forall>d q. m_danga (match_one L conn row) = Some d \<and> req_gumaeryang row = Some q
        \<longrightarrow> m_geumaek (match_one L conn row) = Some (d * q)) \<and>
   (m_danga (match_one L conn row) = None \<or> req_gumaeryang row = None
        \<longrightarrow> m_geumaek (match_one L conn row) = None)"
  by (auto simp: match_one_def Let_def split: prod.splits option.splits)

lemma match_one_request: "request (match_one L conn row) = row"
  by (auto simp: match_one_def Let_def split: prod.splits option.splits)

text \<open>
  Claim C6. In every result of \<open>match_prices\<close> the amount is the product of the resolved unit
  price and the purchase quantity of the request when both are known, and it is \<open>None\<close>, not
  zero, when either of them is \<open>None\<close>.
\<close>

theorem match_prices_amount:
  "\<forall>res \<in> set (match_prices L conn requests).
     (\<forall>d q. m_danga res = Some d \<and> req_gumaeryang (request res) = Some q
          \<longrightarrow> m_geumaek res = Some (d * q)) \<and>
     (m_danga res = None \<or> req_gumaeryang (request res) = None \<longrightarrow> m_geumaek res = None)"
  unfolding match_prices_def using match_one_amount [of L conn] match_one_request [of L conn]
  by simp

theorem match_prices_amount_witness:
  "(let rs = match_prices pylib_excerpt bolt_table
        [request_row ''BoltM6'' ''SS304-10MM'' (Some 3), request_row ''BoltM6'' ''SS304-10MM'' None]
    in rs ! 0 \<in> set rs \<and> m_danga (rs ! 0) = Some 120 \<and>
       req_gumaeryang (request (rs ! 0)) = Some 3 \<and> m_geumaek (rs ! 0) = Some (120 * 3) \<and>
       rs ! 1 \<in> set rs \<and> req_gumaeryang (request (rs ! 1)) = None \<and> m_geumaek (rs ! 1) = None)"
  using match_prices_amount [of pylib_excerpt bolt_table
      "[request_row ''BoltM6'' ''SS304-10MM'' (Some 3), request_row ''BoltM6'' ''SS304-10MM'' None]"]
  by (simp add: run_defs bolt_table_def)

section \<open>The fuzzy tier\<close>

lemma endswith_suffix: "endswith s t \<longleftrightarrow> suffix t s"
proof
  assume "endswith s t"
  then have "s = take (length s - length t) s @ t"
    by (metis append_take_drop_id endswith_def)
  then show "suffix t s"
    by (metis suffixI)
next
  assume "suffix t s"
  then obtain zs where "s = zs @ t"
    by (auto simp: suffix_def)
  then show "endswith s t"
    by (simp add: endswith_def)
qed

lemma fuzzy_scan_Some:
  "fuzzy_scan L target rows = Some m \<Longrightarrow>
     m \<in> set rows \<and> normalize_code L (gyugyeok m) \<noteq> [] \<and>
     (endswith target (normalize_code L (gyugyeok m)) \<or> endswith (normalize_code L (gyugyeok m)) target)"
  by (induction rows) (auto simp: Let_def split: if_splits)

lemma fuzzy_scan_filter:
  "fuzzy_scan L target (filter (\<lambda>m. normalize_code L (gyugyeok m) \<noteq> []) rows) = fuzzy_scan L target rows"
  by (induction rows) (auto simp: Let_def)

lemma fuzzy_scan_finds:
  "m \<in> set rows \<Longrightarrow> normalize_code L (gyugyeok m) \<noteq> [] \<Longrightarrow>
     endswith target (normalize_code L (gyugyeok m)) \<or> endswith (normalize_code L (gyugyeok m)) target \<Longrightarrow>
     fuzzy_scan L target rows \<noteq> None"
  by (induction rows) (auto simp: Let_def)

lemma fuzzy_spec_Some:
  assumes "lookup_latest_price_fuzzy_spec L conn g = Some m"
  shows "m \<in> set conn \<and> gyugyeok m \<noteq> [] \<and> normalize_code L g \<noteq> [] \<and>
         normalize_code L (gyugyeok m) \<noteq> [] \<and>
         (suffix (normalize_code L (gyugyeok m)) (normalize_code L g) \<or>
          suffix (normalize_code L g) (normalize_code L (gyugyeok m)))"
proof -
  from assms have t: "normalize_code L g \<noteq> []"
    by (auto simp: lookup_latest_price_fuzzy_spec_def Let_def split: if_splits)
  with assms have "fuzzy_scan L (normalize_code L g)
      (order_by_file_datetime_desc (filter (\<lambda>m. gyugyeok m \<noteq> []) conn)) = Some m"
    by (simp add: lookup_latest_price_fuzzy_spec_def Let_def)
  from fuzzy_scan_Some [OF this] t show ?thesis
    by (auto simp: set_order_by endswith_suffix)
qed

lemma fuzzy_spec_filter:
  "lookup_latest_price_fuzzy_spec L (filter (\<lambda>m. normalize_code L (gyugyeok m) \<noteq> []) conn) g =
   lookup_latest_price_fuzzy_spec L conn g"
proof -
  have "filter (\<lambda>m. gyugyeok m \<noteq> []) (filter (\<lambda>m. normalize_code L (gyugyeok m) \<noteq> []) conn) =
        filter (\<lambda>m. normalize_code L (gyugyeok m) \<noteq> []) (filter (\<lambda>m. gyugyeok m \<noteq> []) conn)"
    by (simp add: conj_commute)
  then show ?thesis
    by (simp add: lookup_latest_price_fuzzy_spec_def Let_def filter_order_by [symmetric]
        fuzzy_scan_filter del: filter_filter)
qed

text \<open>
  Claim C10. A row that the fuzzy tier returns is a row of the table with a non-empty spec
  code, and both its fuzzy key and the fuzzy key of the request are non-empty and one is a
  suffix of the other. The rows whose fuzzy key is empty are skipped: the lookup gives the
  same answer on the table without them.
\<close>

theorem fuzzy_spec_needs_nonempty_keys:
  "(\<forall>m. lookup_latest_price_fuzzy_spec L conn g = Some m \<longrightarrow>
        m \<in> set conn \<and> gyugyeok m \<noteq> [] \<and> normalize_code L g \<noteq> [] \<and>
        normalize_code L (gyugyeok m) \<noteq> [] \<and>
        (suffix (normalize_code L (gyugyeok m)) (normalize_code L g) \<or>
         suffix (normalize_code L g) (normalize_code L (gyugyeok m)))) \<and>
   lookup_latest_price_fuzzy_spec L (filter (\<lambda>m. normalize_code L (gyugyeok m) \<noteq> []) conn) g =
   lookup_latest_price_fuzzy_spec L conn g"
  using fuzzy_spec_Some [of L conn g] fuzzy_spec_filter [of L conn g] by blast

theorem fuzzy_spec_needs_nonempty_keys_witness:
  "lookup_latest_price_fuzzy_spec pylib_excerpt rev_table (ascii ''0012-REV2'') =
     Some (price_row ''Gasket'' ''ABC-0012-REV2'' ''2024-01-01T09:00:00'' (Some 50)) \<and>
   normalize_code pylib_excerpt (ascii ''0012-REV2'') = ascii ''0012REV2'' \<and>
   normalize_code pylib_excerpt (ascii ''ABC-0012-REV2'') = ascii ''ABC0012REV2'' \<and>
   normalize_code pylib_excerpt (ascii ''--'') = [] \<and>
   lookup_latest_price_fuzzy_spec pylib_excerpt
     (filter (\<lambda>m. normalize_code pylib_excerpt (gyugyeok m) \<noteq> []) rev_table) (ascii ''0012-REV2'') =
     Some (price_row ''Gasket'' ''ABC-0012-REV2'' ''2024-01-01T09:00:00'' (Some 50))"
  using fuzzy_spec_needs_nonempty_keys [of pylib_excerpt rev_table "ascii ''0012-REV2''"]
  by (simp add: run_defs rev_table_def)

text \<open>
  Claim C7, as amended. For spec codes \<open>a\<close> and \<open>b\<close> whose fuzzy keys are both non-empty and of
  which one key is a suffix of the other, a request with spec \<open>a\<close> fuzzy-matches a row with
  spec \<open>b\<close> and a request with spec \<open>b\<close> fuzzy-matches a row with spec \<open>a\<close>: the lookup
  returns the row from a table that holds it alone, and returns some row from any table
  that holds it.
\<close>

theorem fuzzy_spec_symmetric:
  assumes "normalize_code L a \<noteq> []" and "normalize_code L b \<noteq> []"
    and "suffix (normalize_code L a) (normalize_code L b) \<or> suffix (normalize_code L b) (normalize_code L a)"
    and "gyugyeok ma = a" and "gyugyeok mb = b"
  shows "lookup_latest_price_fuzzy_spec L [mb] a = Some mb \<and>
         lookup_latest_price_fuzzy_spec L [ma] b = Some ma \<and>
         (mb \<in> set conn \<longrightarrow> lookup_latest_price_fuzzy_spec L conn a \<noteq> None) \<and>
         (ma \<in> set conn \<longrightarrow> lookup_latest_price_fuzzy_spec L conn b \<noteq> None)"
proof -
  from assms(1,2) have ne: "a \<noteq> []" "b \<noteq> []"
    by (auto simp: normalize_code_def)
  from assms(3) have m: "endswith (normalize_code L a) (normalize_code L b) \<or>
      endswith (normalize_code L b) (normalize_code L a)"
    by (auto simp: endswith_suffix)
  from assms ne have single: "lookup_latest_price_fuzzy_spec L [mb] a = Some mb \<and>
         lookup_latest_price_fuzzy_spec L [ma] b = Some ma"
    by (auto simp: lookup_latest_price_fuzzy_spec_def Let_def order_by_file_datetime_desc_def
        endswith_suffix)
  have ab: "lookup_latest_price_fuzzy_spec L conn a \<noteq> None" if "mb \<in> set conn"
  proof -
    from that ne assms(5) have "mb \<in> set (order_by_file_datetime_desc (filter (\<lambda>m. gyugyeok m \<noteq> []) conn))"
      by (simp add: set_order_by)
    from fuzzy_scan_finds [OF this, of L "normalize_code L a"] assms(1,2,5) m show ?thesis
      by (auto simp: lookup_latest_price_fuzzy_spec_def Let_def)
  qed
  have ba: "lookup_latest_price_fuzzy_spec L conn b \<noteq> None" if "ma \<in> set conn"
  proof -
    from that ne assms(4) have "ma \<in> set (order_by_file_datetime_desc (filter (\<lambda>m. gyugyeok m \<noteq> []) conn))"
      by (simp add: set_order_by)
    from fuzzy_scan_finds [OF this, of L "normalize_code L b"] assms(1,2,4) m show ?thesis
      by (auto simp: lookup_latest_price_fuzzy_spec_def Let_def)
  qed
  from single ab ba show ?thesis by blast
qed

theorem fuzzy_spec_symmetric_witness:
  "normalize_code pylib_excerpt (ascii ''0012-rev2'') \<noteq> [] \<and>
   normalize_code pylib_excerpt (ascii ''ABC-0012-REV2'') \<noteq> [] \<and>
   suffix (normalize_code pylib_excerpt (ascii ''0012-rev2'')) (normalize_code pylib_excerpt (ascii ''ABC-0012-REV2'')) \<and>
   lookup_latest_price_fuzzy_spec pylib_excerpt [price_row ''Gasket'' ''ABC-0012-REV2'' ''2024-01-01T09:00:00'' (Some 50)]
       (ascii ''0012-rev2'') = Some (price_row ''Gasket'' ''ABC-0012-REV2'' ''2024-01-01T09:00:00'' (Some 50)) \<and>
   lookup_latest_price_fuzzy_spec pylib_excerpt [price_row ''Gasket'' ''0012-rev2'' ''2024-01-01T09:00:00'' (Some 50)]
       (ascii ''ABC-0012-REV2'') = Some (price_row ''Gasket'' ''0012-rev2'' ''2024-01-01T09:00:00'' (Some 50)) \<and>
   price_row ''Gasket'' ''ABC-0012-REV2'' ''2024-01-01T09:00:00'' (Some 50) \<in> set rev_table \<and>
   lookup_latest_price_fuzzy_spec pylib_excerpt rev_table (ascii ''0012-rev2'') \<noteq> None"
  using fuzzy_spec_symmetric [of pylib_excerpt "ascii ''0012-rev2''" "ascii ''ABC-0012-REV2''"
      "price_row ''Gasket'' ''0012-rev2'' ''2024-01-01T09:00:00'' (Some 50)"
      "price_row ''Gasket'' ''ABC-0012-REV2'' ''2024-01-01T09:00:00'' (Some 50)" rev_table]
  by (simp add: run_defs suffix_to_prefix rev_table_def)

text \<open>The claim as it is written fails where a fuzzy key is empty: the key of \<open>-\<close> is empty and
  so a suffix of the key of \<open>A\<close>, and neither request matches the other row.\<close>

theorem fuzzy_spec_empty_key_counterexample:
  "suffix (normalize_code pylib_excerpt (ascii ''-'')) (normalize_code pylib_excerpt (ascii ''A'')) \<and>
   lookup_latest_price_fuzzy_spec pylib_excerpt [price_row ''Nut'' ''A'' ''2024-01-01T09:00:00'' (Some 1)]
     (ascii ''-'') = None \<and>
   lookup_latest_price_fuzzy_spec pylib_excerpt [price_row ''Nut'' ''-'' ''2024-01-01T09:00:00'' (Some 1)]
     (ascii ''A'') = None"
  by (simp add: run_defs)

section \<open>The tier cascade\<close>

lemma cascade_cases:
  "cascade L conn row =
     (case lookup_latest_price conn (req_pummyeong row) (req_gyugyeok row) of
        Some m \<Rightarrow> (Some m, Some method_exact)
      | None \<Rightarrow>
          (case (if req_gyugyeok row = [] then None
                 else lookup_latest_price_by_spec conn (req_gyugyeok row)) of
             Some m \<Rightarrow> (Some m, Some method_spec)
           | None \<Rightarrow>
               (case (if req_gyugyeok row = [] then None
                      else lookup_latest_price_fuzzy_spec L conn (req_gyugyeok row)) of
                  Some m \<Rightarrow> (Some m, Some method_fuzzy)
                | None \<Rightarrow>
                    (case (if req_pummyeong row = [] then None
                           else lookup_latest_price_by_name conn (req_pummyeong row)) of
                       Some m \<Rightarrow> (Some m, Some method_name)
                     | None \<Rightarrow> (None, None)))))"
proof (cases "lookup_latest_price conn (req_pummyeong row) (req_gyugyeok row)")
  case (Some m)
  then show ?thesis
    by (simp add: cascade_def)
next
  case None
  then show ?thesis
    by (cases "req_gyugyeok row = []"; cases "req_pummyeong row = []";
        cases "lookup_latest_price_by_spec conn (req_gyugyeok row)";
        cases "lookup_latest_price_fuzzy_spec L conn (req_gyugyeok row)";
        cases "lookup_latest_price_by_name conn (req_pummyeong row)")
       (simp_all add: cascade_def)
qed

lemma match_one_found:
  "fst (cascade L conn row) = Some m \<Longrightarrow>
     matched (match_one L conn row) = (danga m \<noteq> None) \<and>
     match_method (match_one L conn row) = snd (cascade L conn row) \<and>
     matched_source_file (match_one L conn row) = Some (source_file m) \<and>
     matched_source_sheet (match_one L conn row) = Some (source_sheet m) \<and>
     matched_file_datetime (match_one L conn row) = Some (file_datetime m) \<and>
     matched_a7_text (match_one L conn row) = Some (a7_text m) \<and>
     m_danga (match_one L conn row) = danga m \<and>
     status (match_one L conn row) = (if danga m = None then status_no_price else status_matched)"
  by (cases "cascade L conn row") (auto simp: match_one_def Let_def)

lemma match_one_not_found:
  "fst (cascade L conn row) = None \<Longrightarrow>
     \<not> matched (match_one L conn row) \<and>
     match_method (match_one L conn row) = snd (cascade L conn row) \<and>
     matched_source_file (match_one L conn row) = None \<and>
     matched_source_sheet (match_one L conn row) = None \<and>
     matched_file_datetime (match_one L conn row) = None \<and>
     matched_a7_text (match_one L conn row) = None \<and>
     m_danga (match_one L conn row) = None \<and>
     status (match_one L conn row) = status_no_price"
  by (cases "cascade L conn row") (auto simp: match_one_def Let_def)

text \<open>
  Claim C1, as amended. The four lookups run in the order exact, spec only, spec fuzzy, name
  only, the second and third only for a non-empty spec code and the fourth only for a
  non-empty item name, and the cascade stops at the first lookup that returns a row, with or
  without a unit price. The result is priced exactly when that row has a unit price; a row
  without one is kept for provenance, the status is "no price", and no later lookup is
  consulted.
\<close>

theorem cascade_stops_at_first_row:
  "cascade L conn row =
     (case lookup_latest_price conn (req_pummyeong row) (req_gyugyeok row) of
        Some m \<Rightarrow> (Some m, Some method_exact)
      | None \<Rightarrow>
          (case (if req_gyugyeok row = [] then None
                 else lookup_latest_price_by_spec conn (req_gyugyeok row)) of
             Some m \<Rightarrow> (Some m, Some method_spec)
           | None \<Rightarrow>
               (case (if req_gyugyeok row = [] then None
                      else lookup_latest_price_fuzzy_spec L conn (req_gyugyeok row)) of
                  Some m \<Rightarrow> (Some m, Some method_fuzzy)
                | None \<Rightarrow>
                    (case (if req_pummyeong row = [] then None
                           else lookup_latest_price_by_name conn (req_pummyeong row)) of
                       Some m \<Rightarrow> (Some m, Some method_name)
                     | None \<Rightarrow> (None, None))))) \<and>
   match_method (match_one L conn row) = snd (cascade L conn row) \<and>
   (\<forall>m. fst (cascade L conn row) = Some m \<longrightarrow>
      matched (match_one L conn row) = (danga m \<noteq> None) \<and>
      m_danga (match_one L conn row) = danga m \<and>
      status (match_one L conn row) = (if danga m = None then status_no_price else status_matched) \<and>
      matched_source_file (match_one L conn row) = Some (source_file m) \<and>
      matched_source_sheet (match_one L conn row) = Some (source_sheet m) \<and>
      matched_file_datetime (match_one L conn row) = Some (file_datetime m) \<and>
      matched_a7_text (match_one L conn row) = Some (a7_text m)) \<and>
   (fst (cascade L conn row) = None \<longrightarrow>
      \<not> matched (match_one L conn row) \<and> m_danga (match_one L conn row) = None \<and>
      status (match_one L conn row) = status_no_price \<and>
      matched_source_file (match_one L conn row) = None)"
proof -
  have a: "cascade L conn row =
     (case lookup_latest_price conn (req_pummyeong row) (req_gyugyeok row) of
        Some m \<Rightarrow> (Some m, Some method_exact)
      | None \<Rightarrow>
          (case (if req_gyugyeok row = [] then None
                 else lookup_latest_price_by_spec conn (req_gyugyeok row)) of
             Some m \<Rightarrow> (Some m, Some method_spec)
           | None \<Rightarrow>
               (case (if req_gyugyeok row = [] then None
                      else lookup_latest_price_fuzzy_spec L conn (req_gyugyeok row)) of
                  Some m \<Rightarrow> (Some m, Some method_fuzzy)
                | None \<Rightarrow>
                    (case (if req_pummyeong row = [] then None
                           else lookup_latest_price_by_name conn (req_pummyeong row)) of
                       Some m \<Rightarrow> (Some m, Some method_name)
                     | None \<Rightarrow> (None, None)))))"
    by (rule cascade_cases)
  have b: "match_method (match_one L conn row) = snd (cascade L conn row)"
    by (cases "fst (cascade L conn row)") (simp_all add: match_one_found match_one_not_found)
  have c: "\<forall>m. fst (cascade L conn row) = Some m \<longrightarrow>
      matched (match_one L conn row) = (danga m \<noteq> None) \<and>
      m_danga (match_one L conn row) = danga m \<and>
      status (match_one L conn row) = (if danga m = None then status_no_price else status_matched) \<and>
      matched_source_file (match_one L conn row) = Some (source_file m) \<and>
      matched_source_sheet (match_one L conn row) = Some (source_sheet m) \<and>
      matched_file_datetime (match_one L conn row) = Some (file_datetime m) \<and>
      matched_a7_text (match_one L conn row) = Some (a7_text m)"
    using match_one_found [of L conn row] by blast
  have d: "fst (cascade L conn row) = None \<longrightarrow>
      \<not> matched (match_one L conn row) \<and> m_danga (match_one L conn row) = None \<and>
      status (match_one L conn row) = status_no_price \<and>
      matched_source_file (match_one L conn row) = None"
    using match_one_not_found [of L conn row] by blast
  show ?thesis
    by (rule conjI [OF a conjI [OF b conjI [OF c d]]])
qed

theorem cascade_stops_at_first_row_witness:
  "cascade pylib_excerpt priceless_table (request_row ''Valve'' ''DN50'' (Some 2)) =
     (Some (price_row ''Valve'' ''DN50'' ''2024-01-01T09:00:00'' None), Some method_exact) \<and>
   \<not> matched (match_one pylib_excerpt priceless_table (request_row ''Valve'' ''DN50'' (Some 2))) \<and>
   status (match_one pylib_excerpt priceless_table (request_row ''Valve'' ''DN50'' (Some 2))) = status_no_price \<and>
   matched_source_file (match_one pylib_excerpt priceless_table (request_row ''Valve'' ''DN50'' (Some 2)))
     = Some (ascii ''quote.xlsx'') \<and>
   cascade pylib_excerpt priceless_table (request_row ''Pump'' ''DN50'' (Some 2)) =
     (Some (price_row ''Flange'' ''DN50'' ''2024-02-01T09:00:00'' (Some 5)), Some method_spec) \<and>
   matched (match_one pylib_excerpt priceless_table (request_row ''Pump'' ''DN50'' (Some 2))) \<and>
   cascade pylib_excerpt priceless_table (request_row ''Pump'' ''DN80'' (Some 2)) = (None, None) \<and>
   \<not> matched (match_one pylib_excerpt priceless_table (request_row ''Pump'' ''DN80'' (Some 2)))"
  using cascade_stops_at_first_row [of pylib_excerpt priceless_table "request_row ''Valve'' ''DN50'' (Some 2)"]
    cascade_stops_at_first_row [of pylib_excerpt priceless_table "request_row ''Pump'' ''DN50'' (Some 2)"]
    cascade_stops_at_first_row [of pylib_excerpt priceless_table "request_row ''Pump'' ''DN80'' (Some 2)"]
  by (simp add: run_defs priceless_table_def)

text \<open>The claim as it is written fails: the exact lookup returns a row without a unit price, the
  lookup by spec code alone would return a row with the price 5, and the result is unpriced
  with the method of the exact tier.\<close>

theorem priceless_exact_row_counterexample:
  "lookup_latest_price priceless_table (ascii ''Valve'') (ascii ''DN50'') =
     Some (price_row ''Valve'' ''DN50'' ''2024-01-01T09:00:00'' None) \<and>
   lookup_latest_price_by_spec priceless_table (ascii ''DN50'') =
     Some (price_row ''Flange'' ''DN50'' ''2024-02-01T09:00:00'' (Some 5)) \<and>
   \<not> matched (match_one pylib_excerpt priceless_table (request_row ''Valve'' ''DN50'' (Some 2))) \<and>
   m_danga (match_one pylib_excerpt priceless_table (request_row ''Valve'' ''DN50'' (Some 2))) = None \<and>
   match_method (match_one pylib_excerpt priceless_table (request_row ''Valve'' ''DN50'' (Some 2)))
     = Some method_exact \<and>
   status (match_one pylib_excerpt priceless_table (request_row ''Valve'' ''DN50'' (Some 2))) = status_no_price"
  by (simp add: run_defs priceless_table_def)

text \<open>
  Claim C3. The claim says that a request with an empty spec code never resolves through the
  exact tier. \<open>match_prices\<close> runs the exact lookup without the test for a non-empty item name
  and spec code that guards the candidate list and the other tiers: the request for
  \<open>Cable\<close> with an empty spec code is priced through the exact tier from the row of
  \<open>Cable\<close> whose spec code is empty, while its candidate list stays empty.
\<close>

theorem exact_tier_with_empty_spec:
  "req_gyugyeok (request_row ''Cable'' [] (Some 1)) = [] \<and>
   match_method (match_one pylib_excerpt nospec_table (request_row ''Cable'' [] (Some 1)))
     = Some method_exact \<and>
   matched (match_one pylib_excerpt nospec_table (request_row ''Cable'' [] (Some 1))) \<and>
   m_danga (match_one pylib_excerpt nospec_table (request_row ''Cable'' [] (Some 1))) = Some 10 \<and>
   candidates (match_one pylib_excerpt nospec_table (request_row ''Cable'' [] (Some 1))) = []"
  by (simp add: run_defs nospec_table_def)

section \<open>The candidate list\<close>

lemma match_one_candidates_fields:
  "candidates (match_one L conn row) =
     map (\<lambda>m. \<lparr> cand_danga = danga m, cand_file = source_file m, cand_sheet = source_sheet m,
                 cand_date = file_datetime m, cand_A7 = a7_text m \<rparr>)
       (if req_pummyeong row \<noteq> [] \<and> req_gyugyeok row \<noteq> []
        then lookup_candidates conn (req_pummyeong row) (req_gyugyeok row) else [])"
  by (cases "cascade L conn row") (simp add: match_one_def Let_def candidate_dict_def)

lemma mset_lookup_candidates:
  "mset (lookup_candidates conn p g) =
     mset (filter (\<lambda>m. pummyeong m = p \<and> gyugyeok m = g \<and> danga m \<noteq> None) conn)"
  by (simp add: lookup_candidates_def mset_order_by)

lemma sorted_lookup_candidates_rows:
  "sorted_wrt (\<lambda>a b. file_datetime b \<le> file_datetime a) (lookup_candidates conn p g)"
  by (simp add: lookup_candidates_def sorted_order_by)

lemma set_lookup_candidates:
  "set (lookup_candidates conn p g) =
     {m \<in> set conn. pummyeong m = p \<and> gyugyeok m = g \<and> danga m \<noteq> None}"
  by (simp add: lookup_candidates_def set_order_by)

text \<open>
  Claim C5. For a request whose item name and spec code are both non-empty, the candidate
  list has one entry for each row of the table with exactly this item name and spec code and
  a known unit price, and no other entry. The entry of a row carries the unit price, the
  file, the sheet, the \<open>file_datetime\<close> and the A7 text of that row, and the entries stand
  newest first by \<open>file_datetime\<close>. The list is computed from the table and the two keys
  alone: it is the same for every request with these keys, whatever the cascade returns.
\<close>

theorem candidates_exact_key_newest_first:
  assumes "req_pummyeong row \<noteq> []" and "req_gyugyeok row \<noteq> []"
  shows "mset (lookup_candidates conn (req_pummyeong row) (req_gyugyeok row)) =
           mset (filter (\<lambda>m. pummyeong m = req_pummyeong row \<and>
              gyugyeok m = req_gyugyeok row \<and> danga m \<noteq> None) conn) \<and>
         sorted_wrt (\<lambda>a b. file_datetime b \<le> file_datetime a)
           (lookup_candidates conn (req_pummyeong row) (req_gyugyeok row)) \<and>
         candidates (match_one L conn row) =
           map (\<lambda>m. \<lparr> cand_danga = danga m, cand_file = source_file m,
                       cand_sheet = source_sheet m, cand_date = file_datetime m,
                       cand_A7 = a7_text m \<rparr>)
             (lookup_candidates conn (req_pummyeong row) (req_gyugyeok row)) \<and>
         (\<forall>c \<in> set (candidates (match_one L conn row)). cand_danga c \<noteq> None) \<and>
         sorted_wrt (\<lambda>a b. cand_date b \<le> cand_date a) (candidates (match_one L conn row)) \<and>
         (\<forall>L' row'. req_pummyeong row' = req_pummyeong row \<and> req_gyugyeok row' = req_gyugyeok row \<longrightarrow>
            candidates (match_one L' conn row') = candidates (match_one L conn row))"
proof -
  let ?rows = "lookup_candidates conn (req_pummyeong row) (req_gyugyeok row)"
  let ?entry = "\<lambda>m. \<lparr> cand_danga = danga m, cand_file = source_file m,
                       cand_sheet = source_sheet m, cand_date = file_datetime m,
                       cand_A7 = a7_text m \<rparr>"
  have eq: "candidates (match_one L conn row) = map ?entry ?rows"
    using assms by (simp add: match_one_candidates_fields)
  have priced: "\<forall>c \<in> set (candidates (match_one L conn row)). cand_danga c \<noteq> None"
    unfolding eq by (auto simp: set_lookup_candidates)
  have sorted: "sorted_wrt (\<lambda>a b. cand_date b \<le> cand_date a) (candidates (match_one L conn row))"
    unfolding eq using sorted_lookup_candidates_rows [of conn "req_pummyeong row" "req_gyugyeok row"]
    by (simp add: sorted_wrt_map)
  have indep: "\<forall>L' row'. req_pummyeong row' = req_pummyeong row \<and> req_gyugyeok row' = req_gyugyeok row \<longrightarrow>
            candidates (match_one L' conn row') = candidates (match_one L conn row)"
    by (simp add: match_one_candidates_fields)
  show ?thesis
    by (rule conjI [OF mset_lookup_candidates conjI [OF sorted_lookup_candidates_rows
          conjI [OF eq conjI [OF priced conjI [OF sorted indep]]]]])
qed

theorem candidates_exact_key_newest_first_witness:
  "req_pummyeong (request_row ''BoltM6'' ''SS304-10MM'' (Some 3)) \<noteq> [] \<and>
   req_gyugyeok (request_row ''BoltM6'' ''SS304-10MM'' (Some 3)) \<noteq> [] \<and>
   candidates (match_one pylib_excerpt bolt_table (request_row ''BoltM6'' ''SS304-10MM'' (Some 3))) =
     [\<lparr> cand_danga = Some 120, cand_file = ascii ''quote.xlsx'', cand_sheet = ascii ''Sheet1'',
        cand_date = ascii ''2024-02-01T09:00:00'', cand_A7 = ascii ''note'' \<rparr>,
      \<lparr> cand_danga = Some 100, cand_file = ascii ''quote.xlsx'', cand_sheet = ascii ''Sheet1'',
        cand_date = ascii ''2024-01-01T09:00:00'', cand_A7 = ascii ''note'' \<rparr>] \<and>
   m_danga (match_one pylib_excerpt bolt_table (request_row ''BoltM6'' ''SS304-10MM'' (Some 3))) = Some 120 \<and>
   match_method (match_one pylib_excerpt bolt_table (request_row ''BoltM6'' ''SS304-10MM'' (Some 3)))
     = Some method_exact"
  using candidates_exact_key_newest_first [of "request_row ''BoltM6'' ''SS304-10MM'' (Some 3)"
      bolt_table pylib_excerpt]
  by (simp add: run_defs bolt_table_def)

section \<open>The data region\<close>

lemma region_scan_started:
  "0 < d \<Longrightarrow> region_scan blank rows d 0 = filter (\<lambda>r. \<not> blank r) (until_double_blank blank rows)"
proof (induction blank rows arbitrary: d rule: until_double_blank.induct)
  case (1 blank x y zs)
  show ?case
  proof (cases "blank x")
    case False
    with "1.IH" [of "d + 1"] show ?thesis by simp
  next
    case True
    show ?thesis
    proof (cases "blank y")
      case True
      with \<open>blank x\<close> "1.prems" show ?thesis by simp
    next
      case False
      with \<open>blank x\<close> "1.prems" "1.IH" [of d] show ?thesis by simp
    qed
  qed
qed simp_all

lemma until_double_blank_data_first:
  "\<not> blank r \<Longrightarrow> until_double_blank blank (r # rs) = r # until_double_blank blank rs"
  by (cases rs) simp_all

lemma region_scan_leading: "region_scan blank rows 0 0 = region_scan blank (dropWhile blank rows) 0 0"
  by (induction rows) simp_all

lemma region_scan_data_region: "region_scan blank rows 0 0 = data_region blank rows"
proof (cases "dropWhile blank rows")
  case Nil
  have "region_scan blank rows 0 0 = []"
    unfolding region_scan_leading [of blank rows] Nil by simp
  moreover have "data_region blank rows = []"
    unfolding data_region_def Nil by simp
  ultimately show ?thesis by simp
next
  case (Cons r rs)
  then have "\<not> blank r"
    by (metis hd_dropWhile list.sel(1) list.distinct(1))
  with Cons region_scan_leading [of blank rows] region_scan_started [of 1 blank rs]
  show ?thesis
    by (simp add: data_region_def until_double_blank_data_first)
qed

lemma data_region_leading:
  "\<forall>r \<in> set bs. blank r \<Longrightarrow> data_region blank (bs @ rest) = data_region blank rest"
  by (simp add: data_region_def dropWhile_append)

lemma until_double_blank_single:
  "\<forall>r \<in> set xs. \<not> blank r \<Longrightarrow> \<forall>r \<in> set ys. \<not> blank r \<Longrightarrow>
     until_double_blank blank (xs @ b # ys) = xs @ b # ys"
proof (induction xs)
  case Nil
  then show ?case
  proof (induction ys arbitrary: b)
    case Nil
    then show ?case by simp
  next
    case (Cons y ys)
    then show ?case by (simp add: until_double_blank_data_first)
  qed
next
  case (Cons x xs)
  then show ?case by (simp add: until_double_blank_data_first)
qed

lemma data_region_single:
  assumes "\<forall>r \<in> set xs. \<not> blank r" and "xs \<noteq> []" and "blank b" and "\<forall>r \<in> set ys. \<not> blank r"
  shows "data_region blank (xs @ b # ys) = xs @ ys"
proof -
  from assms(1,2) have "dropWhile blank (xs @ b # ys) = xs @ b # ys"
    by (cases xs) simp_all
  with assms until_double_blank_single [of xs blank ys b] show ?thesis
    by (simp add: data_region_def)
qed

lemma until_double_blank_stop:
  "blank b1 \<Longrightarrow> blank b2 \<Longrightarrow>
     filter (\<lambda>r. \<not> blank r) (until_double_blank blank (xs @ b1 # b2 # ys)) =
     filter (\<lambda>r. \<not> blank r) (until_double_blank blank xs)"
  by (induction blank xs rule: until_double_blank.induct) simp_all

lemma data_region_stop:
  assumes "\<exists>r \<in> set xs. \<not> blank r" and "blank b1" and "blank b2"
  shows "data_region blank (xs @ b1 # b2 # ys) = data_region blank xs"
proof -
  from assms(1) obtain r where "r \<in> set xs" and "\<not> blank r"
    by blast
  then have "dropWhile blank (xs @ b1 # b2 # ys) = dropWhile blank xs @ b1 # b2 # ys"
    by (rule dropWhile_append1)
  with assms(2,3) until_double_blank_stop [of blank b1 b2 "dropWhile blank xs" ys] show ?thesis
    by (simp add: data_region_def)
qed


subsection \<open>The loops compute the shared control flow\<close>

lemma estimate_values_Inr:
  "\<forall>k \<in> set keys. header_map k \<noteq> None \<Longrightarrow> \<exists>v. estimate_values keys header_map row vals = Inr v"
  by (induction keys arbitrary: vals) auto

lemma estimate_values_complete:
  assumes "\<forall>h \<in> set REQUIRED_HEADERS. header_map h \<noteq> None"
  shows "estimate_values REQUIRED_HEADERS header_map row Map.empty = Inr (values_of_row header_map row)"
  using estimate_values_Inr [OF assms, of row Map.empty]
  by (auto simp: values_of_row_def)

lemma iter_rows_region_scan:
  assumes "\<forall>h \<in> set REQUIRED_HEADERS. header_map h \<noteq> None"
  shows "iter_rows L header_map rows d e =
           Inr (map (values_of_row header_map) (region_scan (blank_row L header_map) rows d e))"
proof (induction rows arbitrary: d e)
  case Nil
  show ?case by simp
next
  case (Cons row rows)
  show ?case
    by (simp add: estimate_values_complete [OF assms] blank_row_def Cons.IH)
qed

lemma request_values_Inr:
  "\<forall>k i. header_map k = Some i \<longrightarrow> i < length row \<Longrightarrow>
     \<exists>v. request_values keys header_map row vals = Inr v"
  by (induction keys arbitrary: vals) (auto split: option.splits)

lemma request_values_in_range:
  assumes "\<forall>k i. header_map k = Some i \<longrightarrow> i < length row"
  shows "request_values REQUEST_HEADERS header_map row Map.empty =
           Inr (request_values_of_row header_map row)"
  using request_values_Inr [OF assms, of REQUEST_HEADERS Map.empty]
  by (auto simp: request_values_of_row_def)

lemma request_rows_region_scan:
  assumes "\<forall>row \<in> set rows. \<forall>k i. header_map k = Some i \<longrightarrow> i < length row"
  shows "request_rows L path sheet_name header_map rows d e =
           Inr (List.map_filter (\<lambda>r. request_row_of L path sheet_name (request_values_of_row header_map r))
                  (region_scan (request_blank_row L header_map) rows d e))"
  using assms
proof (induction rows arbitrary: d e)
  case Nil
  show ?case by simp
next
  case (Cons row rows)
  from Cons.prems have r: "\<forall>k i. header_map k = Some i \<longrightarrow> i < length row"
    and rs: "\<forall>row \<in> set rows. \<forall>k i. header_map k = Some i \<longrightarrow> i < length row"
    by simp_all
  show ?case
    by (simp add: request_values_in_range [OF r] request_blank_row_def Cons.IH [OF rs]
        split: option.splits)
qed

subsection \<open>What the header search returns\<close>

lemma find_header_row_from_complete:
  "find_header_row_from L df n = Some (header_row, header_map) \<Longrightarrow>
     \<forall>h \<in> set REQUIRED_HEADERS. header_map h \<noteq> None"
  by (induction df arbitrary: n) (auto simp: Let_def split: if_splits)

lemma request_header_scan_range:
  "request_header_scan cells c hm0 k = Some i \<Longrightarrow> hm0 k = Some i \<or> (c \<le> i \<and> i < c + length cells)"
proof (induction cells arbitrary: c hm0)
  case Nil
  then show ?case by simp
next
  case (Cons cell cells)
  from Cons.prems Cons.IH [of "Suc c" _ ] show ?case
    by (fastforce simp: Let_def split: if_splits)
qed

lemma find_request_header_row_from_range:
  "find_request_header_row_from L df n = Some (header_row, header_map) \<Longrightarrow>
     \<exists>row \<in> set df. \<forall>k i. header_map k = Some i \<longrightarrow> i < length row"
proof (induction df arbitrary: n)
  case Nil
  then show ?case by simp
next
  case (Cons row df)
  show ?case
  proof (cases "find_request_header_row_from L (row # df) n = find_request_header_row_from L df (Suc n)")
    case True
    with Cons show ?thesis by auto
  next
    case False
    with Cons.prems have "header_map = request_header_scan (map (normalize_text L) row) 0 Map.empty"
      by (auto simp: Let_def split: if_splits)
    with request_header_scan_range [of "map (normalize_text L) row" 0 Map.empty] show ?thesis
      by fastforce
  qed
qed

lemma request_header_in_range:
  assumes "find_request_header_row L df = Some (header_row, header_map)"
    and "\<forall>r \<in> set df. length r = w"
  shows "\<forall>row \<in> set (drop n df). \<forall>k i. header_map k = Some i \<longrightarrow> i < length row"
proof -
  from find_request_header_row_from_range [of L df 0 header_row header_map] assms
  have "\<forall>k i. header_map k = Some i \<longrightarrow> i < w"
    by (auto simp: find_request_header_row_def)
  with assms(2) show ?thesis
    by (auto dest: in_set_dropD)
qed

lemmas sheet_defs = estimate_header_def estimate_header_map_def item_cells_def request_header_def
  request_cells_def REQUIRED_HEADERS_def REQUEST_HEADERS_def h_pummyeong_def h_gyugyeok_def
  h_danwi_def h_suryang_def h_danga_def h_geumaek_def h_jejosa_def h_gumaeryang_def
  normalize_text_def str_of_def join_split_def isspace_def str_int_def decimal.simps
  has_any_def value_at_def to_float_def strip_def float_of_digits_def blank_cells_def
  blank_request_cells_def request_header_map_def

subsection \<open>Termination at the second consecutive blank row\<close>

lemma iter_rows_data_region:
  assumes "\<forall>h \<in> set REQUIRED_HEADERS. header_map h \<noteq> None"
  shows "iter_rows L header_map rows 0 0 =
           Inr (map (values_of_row header_map) (data_region (blank_row L header_map) rows))"
  by (simp add: iter_rows_region_scan [OF assms] region_scan_data_region)

lemma request_rows_data_region:
  assumes "\<forall>row \<in> set rows. \<forall>k i. header_map k = Some i \<longrightarrow> i < length row"
  shows "request_rows L path sheet_name header_map rows 0 0 =
           Inr (List.map_filter (\<lambda>r. request_row_of L path sheet_name (request_values_of_row header_map r))
                  (data_region (request_blank_row L header_map) rows))"
  by (simp add: request_rows_region_scan [OF assms] region_scan_data_region)

text \<open>
  Claim C2. Below the header row, both extraction loops keep the rows with data up to the
  first two consecutive blank rows that follow a row with data. With a single blank row
  between rows with data, all the rows on both sides are kept; nothing after the second of two
  consecutive blank rows is reached; and blank rows before the first row with data are
  skipped, however many there are. \<open>iter_estimate_rows\<close> yields the dict of every row it keeps,
  \<open>parse_request_sheet\<close> the record of every row it keeps that has an item name.
\<close>

theorem double_blank_row_termination:
  assumes hm: "\<forall>h \<in> set REQUIRED_HEADERS. header_map h \<noteq> None"
    and rh: "find_request_header_row L rdf = Some (rrow, rmap)"
    and rect: "\<forall>r \<in> set rdf. length r = w"
  shows
    "iter_estimate_rows L df header_row header_map =
       Inr (map (values_of_row header_map)
              (data_region (blank_row L header_map) (drop (header_row + 1) df))) \<and>
     (\<forall>xs b ys. drop (header_row + 1) df = xs @ b # ys \<and> xs \<noteq> [] \<and>
          (\<forall>r \<in> set xs. \<not> blank_row L header_map r) \<and> blank_row L header_map b \<and>
          (\<forall>r \<in> set ys. \<not> blank_row L header_map r) \<longrightarrow>
        iter_estimate_rows L df header_row header_map =
          Inr (map (values_of_row header_map) (xs @ ys))) \<and>
     (\<forall>xs b1 b2 ys. drop (header_row + 1) df = xs @ b1 # b2 # ys \<and>
          (\<exists>r \<in> set xs. \<not> blank_row L header_map r) \<and>
          blank_row L header_map b1 \<and> blank_row L header_map b2 \<longrightarrow>
        iter_estimate_rows L df header_row header_map = iter_rows L header_map xs 0 0) \<and>
     (\<forall>bs rest. drop (header_row + 1) df = bs @ rest \<and>
          (\<forall>r \<in> set bs. blank_row L header_map r) \<longrightarrow>
        iter_estimate_rows L df header_row header_map = iter_rows L header_map rest 0 0) \<and>
     parse_request_sheet L path sheet_name rdf =
       Inr (List.map_filter (\<lambda>r. request_row_of L path sheet_name (request_values_of_row rmap r))
              (data_region (request_blank_row L rmap) (drop (rrow + 1) rdf))) \<and>
     (\<forall>xs b ys. drop (rrow + 1) rdf = xs @ b # ys \<and> xs \<noteq> [] \<and>
          (\<forall>r \<in> set xs. \<not> request_blank_row L rmap r) \<and> request_blank_row L rmap b \<and>
          (\<forall>r \<in> set ys. \<not> request_blank_row L rmap r) \<longrightarrow>
        parse_request_sheet L path sheet_name rdf =
          Inr (List.map_filter (\<lambda>r. request_row_of L path sheet_name (request_values_of_row rmap r))
                 (xs @ ys))) \<and>
     (\<forall>xs b1 b2 ys. drop (rrow + 1) rdf = xs @ b1 # b2 # ys \<and>
          (\<exists>r \<in> set xs. \<not> request_blank_row L rmap r) \<and>
          request_blank_row L rmap b1 \<and> request_blank_row L rmap b2 \<longrightarrow>
        parse_request_sheet L path sheet_name rdf = request_rows L path sheet_name rmap xs 0 0) \<and>
     (\<forall>bs rest. drop (rrow + 1) rdf = bs @ rest \<and>
          (\<forall>r \<in> set bs. request_blank_row L rmap r) \<longrightarrow>
        parse_request_sheet L path sheet_name rdf = request_rows L path sheet_name rmap rest 0 0)"
proof -
  note E = iter_rows_data_region [OF hm, of L]
  have e0: "iter_estimate_rows L df header_row header_map =
       Inr (map (values_of_row header_map)
              (data_region (blank_row L header_map) (drop (header_row + 1) df)))"
    by (simp add: iter_estimate_rows_def E)
  have e1: "\<forall>xs b ys. drop (header_row + 1) df = xs @ b # ys \<and> xs \<noteq> [] \<and>
          (\<forall>r \<in> set xs. \<not> blank_row L header_map r) \<and> blank_row L header_map b \<and>
          (\<forall>r \<in> set ys. \<not> blank_row L header_map r) \<longrightarrow>
        iter_estimate_rows L df header_row header_map =
          Inr (map (values_of_row header_map) (xs @ ys))"
    unfolding e0 by (auto simp: data_region_single)
  have e2: "\<forall>xs b1 b2 ys. drop (header_row + 1) df = xs @ b1 # b2 # ys \<and>
          (\<exists>r \<in> set xs. \<not> blank_row L header_map r) \<and>
          blank_row L header_map b1 \<and> blank_row L header_map b2 \<longrightarrow>
        iter_estimate_rows L df header_row header_map = iter_rows L header_map xs 0 0"
    unfolding e0 E by (auto simp: data_region_stop)
  have e3: "\<forall>bs rest. drop (header_row + 1) df = bs @ rest \<and>
          (\<forall>r \<in> set bs. blank_row L header_map r) \<longrightarrow>
        iter_estimate_rows L df header_row header_map = iter_rows L header_map rest 0 0"
    unfolding e0 E by (auto simp: data_region_leading)
  note range = request_header_in_range [OF rh rect, of "rrow + 1"]
  have R: "request_rows L path sheet_name rmap rows 0 0 =
           Inr (List.map_filter (\<lambda>r. request_row_of L path sheet_name (request_values_of_row rmap r))
                  (data_region (request_blank_row L rmap) rows))"
    if "set rows \<subseteq> set (drop (rrow + 1) rdf)" for rows
    using that range by (intro request_rows_data_region) blast
  have r0: "parse_request_sheet L path sheet_name rdf =
       Inr (List.map_filter (\<lambda>r. request_row_of L path sheet_name (request_values_of_row rmap r))
              (data_region (request_blank_row L rmap) (drop (rrow + 1) rdf)))"
    by (simp add: parse_request_sheet_def rh R)
  have r1: "\<forall>xs b ys. drop (rrow + 1) rdf = xs @ b # ys \<and> xs \<noteq> [] \<and>
          (\<forall>r \<in> set xs. \<not> request_blank_row L rmap r) \<and> request_blank_row L rmap b \<and>
          (\<forall>r \<in> set ys. \<not> request_blank_row L rmap r) \<longrightarrow>
        parse_request_sheet L path sheet_name rdf =
          Inr (List.map_filter (\<lambda>r. request_row_of L path sheet_name (request_values_of_row rmap r))
                 (xs @ ys))"
    unfolding r0 by (auto simp: data_region_single)
  have r2: "\<forall>xs b1 b2 ys. drop (rrow + 1) rdf = xs @ b1 # b2 # ys \<and>
          (\<exists>r \<in> set xs. \<not> request_blank_row L rmap r) \<and>
          request_blank_row L rmap b1 \<and> request_blank_row L rmap b2 \<longrightarrow>
        parse_request_sheet L path sheet_name rdf = request_rows L path sheet_name rmap xs 0 0"
  proof (intro allI impI)
    fix xs b1 b2 ys
    assume a: "drop (rrow + 1) rdf = xs @ b1 # b2 # ys \<and>
          (\<exists>r \<in> set xs. \<not> request_blank_row L rmap r) \<and>
          request_blank_row L rmap b1 \<and> request_blank_row L rmap b2"
    then have "set xs \<subseteq> set (drop (rrow + 1) rdf)" by auto
    from R [OF this] a show
      "parse_request_sheet L path sheet_name rdf = request_rows L path sheet_name rmap xs 0 0"
      unfolding r0 by (simp add: data_region_stop)
  qed
  have r3: "\<forall>bs rest. drop (rrow + 1) rdf = bs @ rest \<and>
          (\<forall>r \<in> set bs. request_blank_row L rmap r) \<longrightarrow>
        parse_request_sheet L path sheet_name rdf = request_rows L path sheet_name rmap rest 0 0"
  proof (intro allI impI)
    fix bs rest
    assume a: "drop (rrow + 1) rdf = bs @ rest \<and> (\<forall>r \<in> set bs. request_blank_row L rmap r)"
    then have "set rest \<subseteq> set (drop (rrow + 1) rdf)" by auto
    from R [OF this] a show
      "parse_request_sheet L path sheet_name rdf = request_rows L path sheet_name rmap rest 0 0"
      unfolding r0 by (simp add: data_region_leading)
  qed
  show ?thesis
    by (rule conjI [OF e0 conjI [OF e1 conjI [OF e2 conjI [OF e3
          conjI [OF r0 conjI [OF r1 conjI [OF r2 r3]]]]]]])
qed


lemma estimate_header_map_complete: "\<forall>h \<in> set REQUIRED_HEADERS. estimate_header_map h \<noteq> None"
  by (simp add: REQUIRED_HEADERS_def estimate_header_map_def h_pummyeong_def h_gyugyeok_def
      h_danwi_def h_suryang_def h_danga_def h_geumaek_def)

lemma request_header_found:
  "find_request_header_row pylib_excerpt (request_header # rows) = Some (0, request_header_map)"
  by (simp add: find_request_header_row_def sheet_defs pylib_excerpt_def numeral_2_eq_2 [symmetric])

lemma blank_cells_blank: "blank_row pylib_excerpt estimate_header_map blank_cells"
  by (simp add: blank_row_def values_of_row_def sheet_defs)

lemma bolt_cells_data: "\<not> blank_row pylib_excerpt estimate_header_map (item_cells ''Bolt'' ''M6'' 100)"
  by (simp add: blank_row_def values_of_row_def sheet_defs pylib_excerpt_def ascii_def)

lemma nut_cells_data: "\<not> blank_row pylib_excerpt estimate_header_map (item_cells ''Nut'' ''M6'' 30)"
  by (simp add: blank_row_def values_of_row_def sheet_defs pylib_excerpt_def ascii_def)

lemma bolt_request_data:
  "\<not> request_blank_row pylib_excerpt request_header_map (request_cells ''Bolt'' ''M6'' 3)"
  by (simp add: request_blank_row_def request_values_of_row_def sheet_defs pylib_excerpt_def ascii_def)

lemma nut_request_data:
  "\<not> request_blank_row pylib_excerpt request_header_map (request_cells ''Nut'' ''M6'' 4)"
  by (simp add: request_blank_row_def request_values_of_row_def sheet_defs pylib_excerpt_def ascii_def)

lemma bolt_request_row:
  "request_row_of pylib_excerpt (ascii ''request.xlsx'') (ascii ''Sheet1'')
     (request_values_of_row request_header_map (request_cells ''Bolt'' ''M6'' 3)) =
   Some (request_row ''Bolt'' ''M6'' (Some 3))"
  by (simp add: request_row_of_def request_values_of_row_def sheet_defs pylib_excerpt_def ascii_def
      request_row_def)

lemma nut_request_row:
  "request_row_of pylib_excerpt (ascii ''request.xlsx'') (ascii ''Sheet1'')
     (request_values_of_row request_header_map (request_cells ''Nut'' ''M6'' 4)) =
   Some (request_row ''Nut'' ''M6'' (Some 4))"
  by (simp add: request_row_of_def request_values_of_row_def sheet_defs pylib_excerpt_def ascii_def
      request_row_def)

lemma blank_request_cells_blank:
  "request_blank_row pylib_excerpt request_header_map blank_request_cells"
  by (simp add: request_blank_row_def request_values_of_row_def sheet_defs)


theorem double_blank_row_termination_witness:
  "list_all (\<lambda>h. estimate_header_map h \<noteq> None) REQUIRED_HEADERS \<and>
   find_request_header_row pylib_excerpt single_gap_request = Some (0, request_header_map) \<and>
   list_all (\<lambda>r. length r = 5) single_gap_request \<and>
   iter_estimate_rows pylib_excerpt single_gap_sheet 0 estimate_header_map =
     Inr (map (values_of_row estimate_header_map)
            [item_cells ''Bolt'' ''M6'' 100, item_cells ''Nut'' ''M6'' 30]) \<and>
   iter_estimate_rows pylib_excerpt double_gap_sheet 0 estimate_header_map =
     iter_rows pylib_excerpt estimate_header_map [item_cells ''Bolt'' ''M6'' 100] 0 0 \<and>
   iter_estimate_rows pylib_excerpt leading_gap_sheet 0 estimate_header_map =
     iter_rows pylib_excerpt estimate_header_map [item_cells ''Bolt'' ''M6'' 100] 0 0 \<and>
   parse_request_sheet pylib_excerpt (ascii ''request.xlsx'') (ascii ''Sheet1'') single_gap_request =
     Inr [request_row ''Bolt'' ''M6'' (Some 3), request_row ''Nut'' ''M6'' (Some 4)]"
proof -
  note hm = estimate_header_map_complete
  have rh: "find_request_header_row pylib_excerpt single_gap_request = Some (0, request_header_map)"
    by (simp add: single_gap_request_def request_header_found)
  have rect: "\<forall>r \<in> set single_gap_request. length r = 5"
    by (simp add: single_gap_request_def request_header_def REQUEST_HEADERS_def
        request_cells_def blank_request_cells_def)
  note T = double_blank_row_termination [OF hm rh rect, where header_row = 0
      and path = "ascii ''request.xlsx''" and sheet_name = "ascii ''Sheet1''"]
  have e1: "iter_estimate_rows pylib_excerpt single_gap_sheet 0 estimate_header_map =
     Inr (map (values_of_row estimate_header_map)
            ([item_cells ''Bolt'' ''M6'' 100] @ [item_cells ''Nut'' ''M6'' 30]))"
    by (rule T [where df = single_gap_sheet, THEN conjunct2, THEN conjunct1, rule_format,
          of _ blank_cells])
       (simp add: single_gap_sheet_def blank_cells_blank bolt_cells_data nut_cells_data)
  have e2: "iter_estimate_rows pylib_excerpt double_gap_sheet 0 estimate_header_map =
     iter_rows pylib_excerpt estimate_header_map [item_cells ''Bolt'' ''M6'' 100] 0 0"
    by (rule T [where df = double_gap_sheet, THEN conjunct2, THEN conjunct2, THEN conjunct1,
          rule_format, of _ blank_cells blank_cells "[item_cells ''Nut'' ''M6'' 30]"])
       (simp add: double_gap_sheet_def blank_cells_blank bolt_cells_data)
  have e3: "iter_estimate_rows pylib_excerpt leading_gap_sheet 0 estimate_header_map =
     iter_rows pylib_excerpt estimate_header_map [item_cells ''Bolt'' ''M6'' 100] 0 0"
    by (rule T [where df = leading_gap_sheet, THEN conjunct2, THEN conjunct2, THEN conjunct2,
          THEN conjunct1, rule_format, of "[blank_cells, blank_cells]"])
       (simp add: leading_gap_sheet_def blank_cells_blank)
  have r1: "parse_request_sheet pylib_excerpt (ascii ''request.xlsx'') (ascii ''Sheet1'') single_gap_request =
     Inr (List.map_filter (\<lambda>r. request_row_of pylib_excerpt (ascii ''request.xlsx'') (ascii ''Sheet1'')
                                 (request_values_of_row request_header_map r))
            ([request_cells ''Bolt'' ''M6'' 3] @ [request_cells ''Nut'' ''M6'' 4]))"
    by (rule T [where df = single_gap_sheet, THEN conjunct2, THEN conjunct2, THEN conjunct2,
          THEN conjunct2, THEN conjunct2, THEN conjunct1, rule_format, of _ blank_request_cells])
       (simp add: single_gap_request_def blank_request_cells_blank bolt_request_data nut_request_data)
  from r1 have r1': "parse_request_sheet pylib_excerpt (ascii ''request.xlsx'') (ascii ''Sheet1'') single_gap_request =
     Inr [request_row ''Bolt'' ''M6'' (Some 3), request_row ''Nut'' ''M6'' (Some 4)]"
    by (simp add: bolt_request_row nut_request_row)
  from e1 have e1': "iter_estimate_rows pylib_excerpt single_gap_sheet 0 estimate_header_map =
     Inr (map (values_of_row estimate_header_map)
            [item_cells ''Bolt'' ''M6'' 100, item_cells ''Nut'' ''M6'' 30])"
    by simp
  from hm have hm': "list_all (\<lambda>h. estimate_header_map h \<noteq> None) REQUIRED_HEADERS"
    by (simp add: list_all_iff)
  from rect have rect': "list_all (\<lambda>r. length r = 5) single_gap_request"
    by (simp add: list_all_iff)
  show ?thesis
    by (intro conjI hm' rh rect' e1' e2 e3 r1')
qed

section \<open>The purchase quantity column\<close>

text \<open>
  Claim C4. The claim says that for a header row with both labels the purchase quantity
  column is the one labelled \<open>gumaeryang\<close>. \<open>find_request_header_row\<close> tests
  \<open>"gumaeryang" not in header_map\<close> inside the loop over the columns, so the test only sees
  the columns to the left: with \<open>suryang\<close> in column 4 and \<open>gumaeryang\<close> in column 5 the
  header map sends \<open>gumaeryang\<close> to column 4, and the purchase quantity of the item is read
  from the \<open>suryang\<close> cell (7) and not from the \<open>gumaeryang\<close> cell (9).
\<close>

theorem quantity_label_before_canonical:
  "both_quantity_header ! 4 = CStr h_suryang \<and> both_quantity_header ! 5 = CStr h_gumaeryang \<and>
   map_option (\<lambda>(row_idx, header_map). (row_idx, header_map h_gumaeryang))
     (find_request_header_row pylib_excerpt both_quantity_sheet) = Some (0, Some 4) \<and>
   parse_request_sheet pylib_excerpt (ascii ''request.xlsx'') (ascii ''Sheet1'') both_quantity_sheet =
     Inr [request_row ''Bolt'' ''M6'' (Some 7)]"
  by (simp add: both_quantity_sheet_def both_quantity_header_def find_request_header_row_def
      parse_request_sheet_def request_row_of_def request_row_def sheet_defs pylib_excerpt_def
      ascii_def numeral_2_eq_2 [symmetric])

section \<open>Normalisation\<close>

lemma join_split_idem: "join_split (join_split t) = join_split t"
  by (simp add: join_split_def)

lemma join_split_normalize_text: "join_split (normalize_text L x) = normalize_text L x"
  by (cases x) (simp_all add: normalize_text_def join_split_def)

lemma normalize_text_no_space: "\<forall>c \<in> set (normalize_text L x). \<not> isspace c"
  by (cases x) (simp_all add: normalize_text_def join_split_def)

text \<open>
  Claim C8, as amended. \<open>normalize_text\<close> maps \<open>None\<close> and NaN to the empty text and every
  other value to the NFC form of its text without the whitespace characters. The result holds
  no whitespace, and normalising it again changes nothing whenever it is itself in NFC.
\<close>

theorem normalize_text_idempotent_on_nfc_stable:
  "normalize_text L CNone = [] \<and> normalize_text L CNaN = [] \<and>
   normalize_text L (CStr t) = join_split (nfc L t) \<and>
   (\<forall>c \<in> set (normalize_text L x). \<not> isspace c) \<and>
   (nfc L (normalize_text L x) = normalize_text L x \<longrightarrow>
      normalize_text L (CStr (normalize_text L x)) = normalize_text L x)"
  using normalize_text_no_space [of L x] join_split_normalize_text [of L x]
  by (simp add: normalize_text_def str_of_def)

theorem normalize_text_idempotent_on_nfc_stable_witness:
  "normalize_text pylib_excerpt (CStr [0x20, 0x65, 0x301, 0x20, 0x41]) = [0xE9, 0x41] \<and>
   nfc pylib_excerpt (normalize_text pylib_excerpt (CStr [0x20, 0x65, 0x301, 0x20, 0x41])) =
     normalize_text pylib_excerpt (CStr [0x20, 0x65, 0x301, 0x20, 0x41]) \<and>
   normalize_text pylib_excerpt (CStr (normalize_text pylib_excerpt (CStr [0x20, 0x65, 0x301, 0x20, 0x41]))) =
     normalize_text pylib_excerpt (CStr [0x20, 0x65, 0x301, 0x20, 0x41])"
  using normalize_text_idempotent_on_nfc_stable [of pylib_excerpt _ "CStr [0x20, 0x65, 0x301, 0x20, 0x41]"]
  by (simp add: normalize_text_def str_of_def join_split_def isspace_def pylib_excerpt_def)

text \<open>The claim as it is written fails: NFC leaves \<open>e\<close>, space, U+0301 as it is, removing the
  space brings U+0301 next to \<open>e\<close>, and the second normalisation composes the two to
  U+00E9.\<close>

theorem normalize_text_twice_counterexample:
  "normalize_text pylib_excerpt (CStr [0x65, 0x20, 0x301]) = [0x65, 0x301] \<and>
   normalize_text pylib_excerpt (CStr (normalize_text pylib_excerpt (CStr [0x65, 0x20, 0x301]))) = [0xE9] \<and>
   normalize_text pylib_excerpt (CStr (normalize_text pylib_excerpt (CStr [0x65, 0x20, 0x301]))) \<noteq>
     normalize_text pylib_excerpt (CStr [0x65, 0x20, 0x301])"
  by (simp add: normalize_text_def str_of_def join_split_def isspace_def pylib_excerpt_def)

section \<open>Provenance\<close>


















end
